theory Spec2Isabelle
  imports Complex_Main
begin

section \<open>Data model of phobos/model/joints.py\<close>

text \<open>
  Python floats are modelled as \<^typ>\<open>real\<close>: the comparisons of the source (\<open>==\<close>, \<open>!=\<close>,
  \<open>or\<close> on numbers) are the comparisons of the reals, and rounding and NaN are left out.
\<close>

type_synonym vec3 = "real \<times> real \<times> real"

text \<open>\<open>mathutils.Vector.length\<close> and \<open>mathutils.Vector.normalized()\<close> (the zero vector stays zero).\<close>

fun vec_length :: "vec3 \<Rightarrow> real" where
  "vec_length (x, y, z) = sqrt (x * x + y * y + z * z)"

fun vec_add :: "vec3 \<Rightarrow> vec3 \<Rightarrow> vec3" where
  "vec_add (a, b, c) (x, y, z) = (a + x, b + y, c + z)"

fun vec_sub :: "vec3 \<Rightarrow> vec3 \<Rightarrow> vec3" where
  "vec_sub (a, b, c) (x, y, z) = (a - x, b - y, c - z)"

fun vec_scale :: "vec3 \<Rightarrow> real \<Rightarrow> vec3" where
  "vec_scale (x, y, z) k = (x * k, y * k, z * k)"

definition normalized :: "vec3 \<Rightarrow> vec3" where
  "normalized v =
     (if vec_length v = 0 then (0, 0, 0) else vec_scale v (1 / vec_length v))"

text \<open>
  A pose-bone constraint of the host. One record carries the attributes of both constraint
  types the source reads and writes; \<open>ctype\<close> is the attribute \<open>type\<close>.
\<close>

record constraint =
  ctype :: string
  use_min_x :: bool
  use_min_y :: bool
  use_min_z :: bool
  use_max_x :: bool
  use_max_y :: bool
  use_max_z :: bool
  use_limit_x :: bool
  use_limit_y :: bool
  use_limit_z :: bool
  min_x :: real
  max_x :: real
  min_y :: real
  max_y :: real
  min_z :: real
  max_z :: real
  owner_space :: string

text \<open>Values of custom properties: numbers, strings and coefficient sequences.\<close>

datatype propval = Num real | Str string | Coeffs "real list"

text \<open>
  The link object (an armature with one bone): \<open>constraints\<close> is
  \<open>pose.bones[0].constraints\<close>, \<open>props\<close> the custom properties written by
  \<open>obj[key] = v\<close>, \<open>bone_head\<close> and \<open>bone_tail\<close> the first edit bone,
  \<open>custom_shape\<close> the shape of the pose bone and \<open>matrix_basis\<close> its pose matrix
  (a list of rows).
\<close>

record link_obj =
  name :: string
  phobostype :: string
  props :: "string \<Rightarrow> propval option"
  constraints :: "constraint list"
  custom_shape :: "string option"
  bone_head :: vec3
  bone_tail :: vec3
  matrix_basis :: "real list list"

datatype level = DEBUG | INFO | WARNING | ERROR

text \<open>One constructor per \<open>log(...)\<close> call of the source, with the values it formats in.\<close>

datatype message =
    CouldNotIdentify string
  | AxisZeroLength string
  | LimitsIncomplete string string
  | LimitsDefaulted
  | LimitsDefaultedBoth
  | AssignedJointInformation string
  | NotALink string
  | SettingJointConstraints string
  | NoRigidBodyWorld
  | UnknownJointType string
  | MaxEffortIllDefined string
  | MaxSpeedIllDefined string
  | AssignedResource string

text \<open>
  The state the functions act on: the link object, the log, the interaction mode set by
  \<open>bpy.ops.object.mode_set\<close>, whether a rigid body world exists, the stiffness and
  damping of the generic spring constraint of the active object, and the resource objects
  \<open>ioUtils.getResource(('joint', jointtype))\<close> finds, by joint type.
\<close>

record world =
  obj :: link_obj
  logs :: "(level \<times> message) list"
  mode :: string
  rigid_body_world :: bool
  rigid_body_constraint :: "(real \<times> real) option"
  resources :: "string \<Rightarrow> string option"

datatype py_error = KeyError string | AttributeError | JointTypeError string

definition log :: "message \<Rightarrow> level \<Rightarrow> world \<Rightarrow> world" where
  "log m l w = w\<lparr>logs := logs w @ [(l, m)]\<rparr>"

definition setprop :: "string \<Rightarrow> propval \<Rightarrow> world \<Rightarrow> world" where
  "setprop k v w = w\<lparr>obj := (obj w)\<lparr>props := (props (obj w))(k \<mapsto> v)\<rparr>\<rparr>"

section \<open>Constraints of the pose bone\<close>

text \<open>
  \<open>bpy.ops.pose.constraint_add(type=...)\<close>: the host appends a fresh constraint to the
  bone, with every enable flag off, every bound 0.0 and world space as owner space.
\<close>

definition new_constraint :: "string \<Rightarrow> constraint" where
  "new_constraint ty =
     \<lparr>ctype = ty,
      use_min_x = False, use_min_y = False, use_min_z = False,
      use_max_x = False, use_max_y = False, use_max_z = False,
      use_limit_x = False, use_limit_y = False, use_limit_z = False,
      min_x = 0, max_x = 0, min_y = 0, max_y = 0, min_z = 0, max_z = 0,
      owner_space = ''WORLD''\<rparr>"

definition constraint_add :: "string \<Rightarrow> link_obj \<Rightarrow> link_obj" where
  "constraint_add ty joint = joint\<lparr>constraints := constraints joint @ [new_constraint ty]\<rparr>"

text \<open>\<open>getJointConstraint\<close>: the last constraint of the given type, or \<open>None\<close>.\<close>

fun getJointConstraint_loop :: "constraint option \<Rightarrow> constraint list \<Rightarrow> string \<Rightarrow> constraint option" where
  "getJointConstraint_loop con [] ty = con"
| "getJointConstraint_loop con (c # cs) ty =
     getJointConstraint_loop (if ctype c = ty then Some c else con) cs ty"

definition getJointConstraint :: "link_obj \<Rightarrow> string \<Rightarrow> constraint option" where
  "getJointConstraint joint ty = getJointConstraint_loop None (constraints joint) ty"

text \<open>
  The source assigns to attributes of the object \<open>getJointConstraint\<close> returned, which is
  the constraint in the bone's list: \<open>assign_constraint\<close> applies the assignments \<open>f\<close> to
  the last constraint of that type in the list.
\<close>

fun assign_in :: "string \<Rightarrow> (constraint \<Rightarrow> constraint) \<Rightarrow> constraint list \<Rightarrow> constraint list" where
  "assign_in ty f [] = []"
| "assign_in ty f (c # cs) =
     (if list_ex (\<lambda>d. ctype d = ty) cs then c # assign_in ty f cs
      else if ctype c = ty then f c # cs
      else c # cs)"

definition assign_constraint :: "string \<Rightarrow> (constraint \<Rightarrow> constraint) \<Rightarrow> link_obj \<Rightarrow> link_obj" where
  "assign_constraint ty f joint = joint\<lparr>constraints := assign_in ty f (constraints joint)\<rparr>"

text \<open>
  \<open>for cons in constraints: constraints.remove(cons)\<close>, with the host's collection handing
  out every constraint of the bone in turn: each one is removed.
\<close>

fun remove_each :: "constraint list \<Rightarrow> constraint list \<Rightarrow> constraint list" where
  "remove_each [] cs = cs"
| "remove_each (c # rest) cs = remove_each rest (remove1 c cs)"

definition remove_constraints :: "link_obj \<Rightarrow> link_obj" where
  "remove_constraints joint =
     joint\<lparr>constraints := remove_each (constraints joint) (constraints joint)\<rparr>"

section \<open>The builders \<open>set_revolute\<close> ... \<open>set_planar\<close>\<close>

text \<open>
  The six assignments \<open>use_min_x = True\<close> ... \<open>use_max_z = True\<close> that open every builder
  but \<open>set_planar\<close>.
\<close>

definition fix_location :: "constraint \<Rightarrow> constraint" where
  "fix_location c =
     c\<lparr>use_min_x := True, use_min_y := True, use_min_z := True,
       use_max_x := True, use_max_y := True, use_max_z := True\<rparr>"

definition set_revolute :: "real \<Rightarrow> real \<Rightarrow> link_obj \<Rightarrow> link_obj" where
  "set_revolute lower upper joint =
     (let joint = constraint_add ''LIMIT_LOCATION'' joint;
          joint = assign_constraint ''LIMIT_LOCATION''
                    (\<lambda>cloc. (fix_location cloc)\<lparr>owner_space := ''LOCAL''\<rparr>) joint;
          joint = constraint_add ''LIMIT_ROTATION'' joint
      in assign_constraint ''LIMIT_ROTATION''
           (\<lambda>crot. crot\<lparr>use_limit_x := True, min_x := 0, max_x := 0,
                         use_limit_y := True, min_y := lower, max_y := upper,
                         use_limit_z := True, min_z := 0, max_z := 0,
                         owner_space := ''LOCAL''\<rparr>) joint)"

definition set_continuous :: "link_obj \<Rightarrow> link_obj" where
  "set_continuous joint =
     (let joint = constraint_add ''LIMIT_LOCATION'' joint;
          joint = assign_constraint ''LIMIT_LOCATION''
                    (\<lambda>cloc. (fix_location cloc)\<lparr>owner_space := ''LOCAL''\<rparr>) joint;
          joint = constraint_add ''LIMIT_ROTATION'' joint
      in assign_constraint ''LIMIT_ROTATION''
           (\<lambda>crot. crot\<lparr>use_limit_x := True, min_x := 0, max_x := 0,
                         use_limit_z := True, min_z := 0, max_z := 0,
                         owner_space := ''LOCAL''\<rparr>) joint)"

definition set_prismatic :: "real \<Rightarrow> real \<Rightarrow> link_obj \<Rightarrow> link_obj" where
  "set_prismatic lower upper joint =
     (let joint = constraint_add ''LIMIT_LOCATION'' joint;
          joint = assign_constraint ''LIMIT_LOCATION''
                    (\<lambda>cloc.
                       (let cloc = fix_location cloc;
                            cloc = (if lower = upper
                                    then cloc\<lparr>use_min_y := False, use_max_y := False\<rparr>
                                    else cloc\<lparr>min_y := lower, max_y := upper\<rparr>)
                        in cloc\<lparr>owner_space := ''LOCAL''\<rparr>)) joint;
          joint = constraint_add ''LIMIT_ROTATION'' joint
      in assign_constraint ''LIMIT_ROTATION''
           (\<lambda>crot. crot\<lparr>use_limit_x := True, min_x := 0, max_x := 0,
                         use_limit_y := True, min_y := 0, max_y := 0,
                         use_limit_z := True, min_z := 0, max_z := 0,
                         owner_space := ''LOCAL''\<rparr>) joint)"

definition set_fixed :: "link_obj \<Rightarrow> link_obj" where
  "set_fixed joint =
     (let joint = constraint_add ''LIMIT_LOCATION'' joint;
          joint = assign_constraint ''LIMIT_LOCATION''
                    (\<lambda>cloc. (fix_location cloc)\<lparr>owner_space := ''LOCAL''\<rparr>) joint;
          joint = constraint_add ''LIMIT_ROTATION'' joint
      in assign_constraint ''LIMIT_ROTATION''
           (\<lambda>crot. crot\<lparr>use_limit_x := True, min_x := 0, max_x := 0,
                         use_limit_y := True, min_y := 0, max_y := 0,
                         use_limit_z := True, min_z := 0, max_z := 0,
                         owner_space := ''LOCAL''\<rparr>) joint)"

definition set_planar :: "link_obj \<Rightarrow> link_obj" where
  "set_planar joint =
     (let joint = constraint_add ''LIMIT_LOCATION'' joint;
          joint = assign_constraint ''LIMIT_LOCATION''
                    (\<lambda>cloc. cloc\<lparr>use_min_y := True, use_max_y := True,
                                 owner_space := ''LOCAL''\<rparr>) joint;
          joint = constraint_add ''LIMIT_ROTATION'' joint
      in assign_constraint ''LIMIT_ROTATION''
           (\<lambda>crot. crot\<lparr>use_limit_x := True, min_x := 0, max_x := 0,
                         use_limit_y := True, min_y := 0, max_y := 0,
                         use_limit_z := True, min_z := 0, max_z := 0,
                         owner_space := ''LOCAL''\<rparr>) joint)"

section \<open>The classifier \<open>getJointType\<close>\<close>

text \<open>
  The lists \<open>cloc\<close>, \<open>crot\<close> and \<open>freeloc\<close> of the source have three entries, one per axis:
  they are triples here, \<open>sum\<close> counts the entries that are true, and a list that is not
  \<open>None\<close> is truthy.
\<close>

type_synonym flags = "bool \<times> bool \<times> bool"

fun py_sum :: "flags \<Rightarrow> nat" where
  "py_sum (a, b, c) = of_bool a + of_bool b + of_bool c"

text \<open>
  The loop over the constraints: the last \<open>LIMIT_LOCATION\<close> constraint decides \<open>cloc\<close>,
  the last \<open>LIMIT_ROTATION\<close> constraint decides \<open>limrot\<close> and \<open>crot\<close>, which the source
  assigns together.
\<close>

fun getJointType_loop ::
  "constraint list \<Rightarrow> flags option \<times> (constraint \<times> flags) option
     \<Rightarrow> flags option \<times> (constraint \<times> flags) option" where
  "getJointType_loop [] s = s"
| "getJointType_loop (c # cs) (cloc, rot) =
     getJointType_loop cs
       (if ctype c = ''LIMIT_LOCATION'' then
          (Some (use_min_x c \<and> min_x c = max_x c,
                 use_min_y c \<and> min_y c = max_y c,
                 use_min_z c \<and> min_z c = max_z c), rot)
        else if ctype c = ''LIMIT_ROTATION'' then
          (cloc,
           Some (c, (use_limit_x c \<and> (min_x c \<noteq> 0 \<or> max_x c \<noteq> 0),
                     use_limit_y c \<and> (min_y c \<noteq> 0 \<or> max_y c \<noteq> 0),
                     use_limit_z c \<and> (min_z c \<noteq> 0 \<or> max_z c \<noteq> 0))))
        else (cloc, rot))"

definition getJointType :: "link_obj \<Rightarrow> string \<times> flags option" where
  "getJointType joint =
     (case getJointType_loop (constraints joint) (None, None) of
        (cloc, rot) \<Rightarrow>
          (let ncloc = map_option py_sum cloc;
               ncrot = map_option
                         (\<lambda>(limrot, crot).
                            py_sum (use_limit_x limrot, use_limit_y limrot, use_limit_z limrot))
                         rot;
               jtype =
                 (if cloc \<noteq> None then
                    (if ncloc = Some 3 then
                       (if ncrot = Some 3 then
                          (case rot of
                             Some (limrot, crot) \<Rightarrow>
                               if py_sum crot > 0 then ''revolute'' else ''fixed''
                           | None \<Rightarrow> ''floating'')
                        else if ncrot = Some 2 then ''continuous''
                        else ''floating'')
                     else if ncloc = Some 2 then ''prismatic''
                     else if ncloc = Some 1 then ''planar''
                     else ''floating'')
                  else ''floating'')
           in (jtype, map_option snd rot)))"

text \<open>\<open>deriveJointType\<close> passes the answer of \<open>getJointType\<close> on.\<close>

definition deriveJointType :: "link_obj \<Rightarrow> string \<times> flags option" where
  "deriveJointType joint = getJointType joint"

section \<open>\<open>getJointConstraints\<close>\<close>

text \<open>\<open>joint.data.bones[0].vector\<close>: from the head of the bone to its tail.\<close>

definition bone_vector :: "link_obj \<Rightarrow> vec3" where
  "bone_vector joint = vec_sub (bone_tail joint) (bone_head joint)"

definition under_defined :: "link_obj \<Rightarrow> py_error" where
  "under_defined joint =
     JointTypeError (''JointTypeError: under-defined constraints in joint ('' @ name joint @ '').'')"

definition getJointConstraints :: "link_obj \<Rightarrow> py_error + (vec3 option \<times> real list option)" where
  "getJointConstraints joint =
     (case deriveJointType joint of
        (jt, crot) \<Rightarrow>
          if jt \<noteq> ''floating'' \<and> jt \<noteq> ''fixed'' then
            (if (jt = ''revolute'' \<or> jt = ''continuous'') \<and> crot \<noteq> None then
               (case (getJointConstraint joint ''LIMIT_ROTATION'', crot) of
                  (Some c, Some (crot0, crot1, crot2)) \<Rightarrow>
                    Inr (Some (normalized (bone_vector joint)),
                         if crot0 then Some [min_x c, max_x c]
                         else if crot1 then Some [min_y c, max_y c]
                         else if crot2 then Some [min_z c, max_z c]
                         else None)
                | _ \<Rightarrow> Inl AttributeError)
             else
               (case getJointConstraint joint ''LIMIT_LOCATION'' of
                  None \<Rightarrow> Inl (under_defined joint)
                | Some c \<Rightarrow>
                    (let freeloc = (use_min_x c \<and> use_max_x c \<and> min_x c = max_x c,
                                    use_min_y c \<and> use_max_y c \<and> min_y c = max_y c,
                                    use_min_z c \<and> use_max_z c \<and> min_z c = max_z c)
                     in if jt = ''prismatic'' then
                          (if py_sum freeloc = 2 then
                             Inr (Some (normalized (bone_vector joint)),
                                  if \<not> fst freeloc then Some [min_x c, max_x c]
                                  else if \<not> fst (snd freeloc) then Some [min_y c, max_y c]
                                  else if \<not> snd (snd freeloc) then Some [min_z c, max_z c]
                                  else None)
                           else Inl (under_defined joint))
                        else if jt = ''planar'' then
                          (if py_sum freeloc = 1 then
                             Inr (Some (of_bool (fst freeloc), of_bool (fst (snd freeloc)),
                                        of_bool (snd (snd freeloc))),
                                  if fst freeloc then Some [min_y c, max_y c, min_z c, max_z c]
                                  else if fst (snd freeloc)
                                  then Some [min_x c, max_x c, min_z c, max_z c]
                                  else if snd (snd freeloc)
                                  then Some [min_x c, max_x c, min_y c, max_y c]
                                  else None)
                           else Inl (under_defined joint))
                        else Inr (None, None))))
          else Inr (None, None))"

section \<open>\<open>setJointConstraints\<close>\<close>

text \<open>
  An approximation argument is a dictionary: its items, in order. \<open>None\<close> and the empty
  dictionary are falsy.
\<close>

type_synonym approximation = "(string \<times> propval) list"

definition getitem :: "approximation \<Rightarrow> string \<Rightarrow> py_error + propval" where
  "getitem d k = (case map_of d k of None \<Rightarrow> Inl (KeyError k) | Some v \<Rightarrow> Inr v)"

text \<open>
  The block for \<open>maxeffort_approximation\<close>: \<open>all(elem in ['function', 'coefficients'] for
  elem in maxeffort_approximation)\<close> runs over the keys of the dictionary. The two
  assignments happen one after the other, so a \<open>KeyError\<close> of the second leaves the first
  written.
\<close>

definition maxeffort_block :: "approximation option \<Rightarrow> world \<Rightarrow> py_error option \<times> world" where
  "maxeffort_block maxeffort_approximation w =
     (case maxeffort_approximation of
        None \<Rightarrow> (None, w)
      | Some d \<Rightarrow>
          if d = [] then (None, w)
          else if list_all (\<lambda>elem. elem \<in> set [''function'', ''coefficients'']) (map fst d) then
            (case getitem d ''function'' of
               Inl e \<Rightarrow> (Some e, w)
             | Inr f \<Rightarrow>
                 (let w = setprop ''joint/maxeffort_approximation'' f w
                  in case getitem d ''coefficients'' of
                       Inl e \<Rightarrow> (Some e, w)
                     | Inr cf \<Rightarrow> (None, setprop ''joint/maxeffort_coefficients'' cf w)))
          else (None, log (MaxEffortIllDefined (name (obj w))) ERROR w))"

definition maxspeed_block :: "approximation option \<Rightarrow> world \<Rightarrow> py_error option \<times> world" where
  "maxspeed_block maxspeed_approximation w =
     (case maxspeed_approximation of
        None \<Rightarrow> (None, w)
      | Some d \<Rightarrow>
          if d = [] then (None, w)
          else if list_all (\<lambda>elem. elem \<in> set [''function'', ''coefficients'']) (map fst d) then
            (case getitem d ''function'' of
               Inl e \<Rightarrow> (Some e, w)
             | Inr f \<Rightarrow>
                 (let w = setprop ''joint/maxspeed_approximation'' f w
                  in case getitem d ''coefficients'' of
                       Inl e \<Rightarrow> (Some e, w)
                     | Inr cf \<Rightarrow> (None, setprop ''joint/maxspeed_coefficients'' cf w)))
          else (None, log (MaxSpeedIllDefined (name (obj w))) ERROR w))"

text \<open>The spring and damping block; a missing rigid body world is the caught \<open>RuntimeError\<close>.\<close>

definition spring_block :: "real \<Rightarrow> real \<Rightarrow> world \<Rightarrow> world" where
  "spring_block spring damping w =
     (let w = (if rigid_body_world w
               then w\<lparr>rigid_body_constraint := Some (spring, damping)\<rparr>
               else log NoRigidBodyWorld ERROR w);
          w = setprop ''joint/dynamics/springStiffness'' (Num spring) w;
          w = setprop ''joint/dynamics/springDamping'' (Num damping) w;
          w = setprop ''joint/dynamics/spring_const_constraint_axis1'' (Num spring) w
      in setprop ''joint/dynamics/damping_const_constraint_axis1'' (Num damping) w)"

text \<open>The chain \<open>if jointtype == 'revolute': ... else: log(...)\<close> that sets the constraints.\<close>

definition type_block :: "string \<Rightarrow> real \<Rightarrow> real \<Rightarrow> world \<Rightarrow> world" where
  "type_block jointtype lower upper w =
     (if jointtype = ''revolute'' then w\<lparr>obj := set_revolute lower upper (obj w)\<rparr>
      else if jointtype = ''continuous'' then w\<lparr>obj := set_continuous (obj w)\<rparr>
      else if jointtype = ''prismatic'' then w\<lparr>obj := set_prismatic lower upper (obj w)\<rparr>
      else if jointtype = ''fixed'' then w\<lparr>obj := set_fixed (obj w)\<rparr>
      else if jointtype = ''floating'' then w
      else if jointtype = ''planar'' then w\<lparr>obj := set_planar (obj w)\<rparr>
      else log (UnknownJointType (name (obj w))) WARNING w)"

text \<open>The link visualization at the end of \<open>setJointConstraints\<close>.\<close>

definition resource_block :: "string \<Rightarrow> world \<Rightarrow> world" where
  "resource_block jointtype w =
     (case resources w jointtype of
        None \<Rightarrow> w
      | Some resource_obj \<Rightarrow>
          (let w = log (AssignedResource (name (obj w))) DEBUG w
           in w\<lparr>obj := (obj w)\<lparr>custom_shape := Some resource_obj\<rparr>\<rparr>))"

text \<open>
  \<open>setJointConstraints(joint, jointtype, lower, upper, spring, damping,
  maxeffort_approximation, maxspeed_approximation)\<close> on the link \<open>obj w\<close>. The first
  component of the result is the exception that left the function, if any; the second is
  the state at that moment.
\<close>

definition setJointConstraints ::
  "string \<Rightarrow> real \<Rightarrow> real \<Rightarrow> real \<Rightarrow> real \<Rightarrow> approximation option \<Rightarrow> approximation option
     \<Rightarrow> world \<Rightarrow> py_error option \<times> world" where
  "setJointConstraints jointtype lower upper spring damping
       maxeffort_approximation maxspeed_approximation w =
     (if phobostype (obj w) \<noteq> ''link'' then (None, log (NotALink (name (obj w))) ERROR w)
      else
        (let w = log (SettingJointConstraints (name (obj w))) DEBUG w;
             w = w\<lparr>mode := ''POSE''\<rparr>;
             w = w\<lparr>obj := remove_constraints (obj w)\<rparr>;
             w = (if (jointtype = ''revolute'' \<or> jointtype = ''prismatic'')
                     \<and> (spring \<noteq> 0 \<or> damping \<noteq> 0)
                  then spring_block spring damping w else w);
             w = type_block jointtype lower upper w;
             w = setprop ''joint/type'' (Str jointtype) w;
             w = w\<lparr>mode := ''OBJECT''\<rparr>
         in if jointtype = ''revolute'' \<or> jointtype = ''continuous'' \<or> jointtype = ''prismatic''
            then
              (case maxeffort_block maxeffort_approximation w of
                 (Some e, w) \<Rightarrow> (Some e, w)
               | (None, w) \<Rightarrow>
                   (case maxspeed_block maxspeed_approximation w of
                      (Some e, w) \<Rightarrow> (Some e, w)
                    | (None, w) \<Rightarrow> (None, resource_block jointtype w)))
            else (None, resource_block jointtype w)))"

section \<open>\<open>createJoint\<close>\<close>

text \<open>
  The joint dictionary: \<open>name\<close> and \<open>type\<close>, the optional \<open>axis\<close> and \<open>limits\<close>, and
  \<open>generic\<close>, its other entries in order (a key starting with \<open>$\<close> holds a dictionary of
  tags).
\<close>

record limits_def =
  lower :: "real option"
  upper :: "real option"
  effort :: "real option"
  velocity :: "real option"

record joint_def =
  jname :: string
  jtype :: string
  axis :: "vec3 option"
  limits :: "limits_def option"
  generic :: "(string \<times> (string \<times> propval) list) list"

fun add_tags :: "string \<Rightarrow> (string \<times> propval) list \<Rightarrow> world \<Rightarrow> world" where
  "add_tags prop [] w = w"
| "add_tags prop ((tag, v) # tags) w =
     add_tags prop tags (setprop (''joint/'' @ tl prop @ ''/'' @ tag) v w)"

fun add_generic :: "(string \<times> (string \<times> propval) list) list \<Rightarrow> world \<Rightarrow> world" where
  "add_generic [] w = w"
| "add_generic ((prop, tags) # rest) w =
     add_generic rest
       (if prop \<noteq> [] \<and> hd prop = CHR ''$'' then add_tags prop tags w else w)"

text \<open>The \<open>limits\<close> block: the state after it and the bounds handed to \<open>setJointConstraints\<close>.\<close>

definition limits_block :: "joint_def \<Rightarrow> world \<Rightarrow> world \<times> real \<times> real" where
  "limits_block joint w =
     (case limits joint of
        Some lims \<Rightarrow>
          (let w = (case effort lims of
                      Some v \<Rightarrow> setprop ''joint/maxEffort'' (Num v) w
                    | None \<Rightarrow> log (LimitsIncomplete (jname joint) ''effort'') ERROR w);
               w = (case velocity lims of
                      Some v \<Rightarrow> setprop ''joint/maxSpeed'' (Num v) w
                    | None \<Rightarrow> log (LimitsIncomplete (jname joint) ''velocity'') ERROR w)
           in case (lower lims, upper lims) of
                (Some lo, Some up) \<Rightarrow> (w, lo, up)
              | _ \<Rightarrow> (log LimitsDefaulted WARNING w, - (1 / 100000), 1 / 100000))
      | None \<Rightarrow> (log LimitsDefaultedBoth WARNING w, - (1 / 100000), 1 / 100000))"

text \<open>The \<open>axis\<close> block: a zero-length axis is logged, any other one turns the edit bone.\<close>

definition axis_block :: "joint_def \<Rightarrow> world \<Rightarrow> world" where
  "axis_block joint w =
     (case axis joint of
        None \<Rightarrow> w
      | Some a \<Rightarrow>
          if vec_length a = 0 then log (AxisZeroLength (jname joint)) ERROR w
          else
            (let w = w\<lparr>mode := ''EDIT''\<rparr>;
                 length = vec_length (vec_sub (bone_tail (obj w)) (bone_head (obj w)))
             in w\<lparr>obj := (obj w)\<lparr>bone_tail :=
                    vec_add (bone_head (obj w)) (vec_scale (normalized a) length)\<rparr>\<rparr>))"

text \<open>
  \<open>createJoint(joint, linkobj, links)\<close>. \<open>identified\<close> says that the link object is known:
  it was passed as \<open>linkobj\<close>, or found under \<open>joint['child']\<close> in \<open>links\<close>, or the search
  of the scene gave one object and not a list. That object is \<open>obj w\<close>. Making it the
  active, selected object changes nothing of the state kept here.
\<close>

definition createJoint :: "joint_def \<Rightarrow> bool \<Rightarrow> world \<Rightarrow> py_error option \<times> world" where
  "createJoint joint identified w =
     (if \<not> identified then (None, log (CouldNotIdentify (jname joint)) ERROR w)
      else
        (let w = (if jname joint \<noteq> name (obj w)
                  then setprop ''joint/name'' (Str (jname joint)) w else w);
             w = axis_block joint w
         in case limits_block joint w of
              (w, lo, up) \<Rightarrow>
                (case setJointConstraints (jtype joint) lo up 0 0 None None w of
                   (Some e, w) \<Rightarrow> (Some e, w)
                 | (None, w) \<Rightarrow>
                     (let w = add_generic (generic joint) w
                      in (None, log (AssignedJointInformation (name (obj w))) DEBUG w)))))"

section \<open>\<open>deriveJointState\<close>\<close>

text \<open>
  The conversions of \<open>mathutils.Matrix\<close> the function calls, as functions of the matrix.
\<close>

record mathutils =
  to_translation :: "real list list \<Rightarrow> real list"
  to_euler :: "real list list \<Rightarrow> real list"
  to_quaternion :: "real list list \<Rightarrow> real list"

record joint_state =
  matrix :: "real list list"
  translation :: "real list"
  rotation_euler :: "real list"
  rotation_quaternion :: "real list"

definition deriveJointState :: "mathutils \<Rightarrow> world \<Rightarrow> joint_state \<times> world" where
  "deriveJointState mu w =
     (\<lparr>matrix = matrix_basis (obj w),
       translation = to_translation mu (matrix_basis (obj w)),
       rotation_euler = to_euler mu (matrix_basis (obj w)),
       rotation_quaternion = to_quaternion mu (matrix_basis (obj w))\<rparr>, w)"

section \<open>The constraint sets and counts of the specification\<close>

text \<open>
  The constraint records of section 4.1 of the specification, written out. A location
  constraint with the given enable flags for x, y and z (min and max flag alike), the range
  \<open>(lo, up)\<close> on y and \<open>(0, 0)\<close> on x and z; a rotation constraint with x and z limited to
  \<open>(0, 0)\<close>, and y limited or not, with the range \<open>(lo, up)\<close>. Both in local space.
\<close>

definition location_record :: "bool \<Rightarrow> bool \<Rightarrow> bool \<Rightarrow> real \<Rightarrow> real \<Rightarrow> constraint" where
  "location_record ux uy uz lo up =
     \<lparr>ctype = ''LIMIT_LOCATION'',
      use_min_x = ux, use_min_y = uy, use_min_z = uz,
      use_max_x = ux, use_max_y = uy, use_max_z = uz,
      use_limit_x = False, use_limit_y = False, use_limit_z = False,
      min_x = 0, max_x = 0, min_y = lo, max_y = up, min_z = 0, max_z = 0,
      owner_space = ''LOCAL''\<rparr>"

definition rotation_record :: "bool \<Rightarrow> real \<Rightarrow> real \<Rightarrow> constraint" where
  "rotation_record uy lo up =
     \<lparr>ctype = ''LIMIT_ROTATION'',
      use_min_x = False, use_min_y = False, use_min_z = False,
      use_max_x = False, use_max_y = False, use_max_z = False,
      use_limit_x = True, use_limit_y = uy, use_limit_z = True,
      min_x = 0, max_x = 0, min_y = lo, max_y = up, min_z = 0, max_z = 0,
      owner_space = ''LOCAL''\<rparr>"

text \<open>
  The constraint set the specification gives each joint type: revolute limits the rotation
  about y to \<open>(lower, upper)\<close>, continuous leaves it free, prismatic frees the translation
  along y within \<open>(lower, upper)\<close> (with the flags of y cleared when the bounds are equal),
  fixed locks all six axes, planar locks the translation along y and every rotation; floating
  and unknown types have no constraint.
\<close>

definition spec_constraint_set :: "string \<Rightarrow> real \<Rightarrow> real \<Rightarrow> constraint list" where
  "spec_constraint_set t lo up =
     (if t = ''revolute'' then
        [location_record True True True 0 0, rotation_record True lo up]
      else if t = ''continuous'' then
        [location_record True True True 0 0, rotation_record False 0 0]
      else if t = ''prismatic'' then
        [if lo = up then location_record True False True 0 0
         else location_record True True True lo up,
         rotation_record True 0 0]
      else if t = ''fixed'' then
        [location_record True True True 0 0, rotation_record True 0 0]
      else if t = ''planar'' then
        [location_record False True False 0 0, rotation_record True 0 0]
      else [])"

text \<open>
  The bounds the specification gives a joint definition: \<open>lower\<close> and \<open>upper\<close> of its limits
  when both are there, \<open>(-1e-5, 1e-5)\<close> otherwise.
\<close>

definition spec_bounds :: "joint_def \<Rightarrow> real \<times> real" where
  "spec_bounds joint =
     (case limits joint of
        None \<Rightarrow> (- (1 / 100000), 1 / 100000)
      | Some lims \<Rightarrow>
          (case (lower lims, upper lims) of
             (Some lo, Some up) \<Rightarrow> (lo, up)
           | _ \<Rightarrow> (- (1 / 100000), 1 / 100000)))"

text \<open>
  The counts of the specification's classifier, read off the constraints \<open>getJointConstraint\<close>
  finds: a translation axis is locked when both its enable flags are set and its bounds are
  equal; a rotation axis counts when its limit flag is set.
\<close>

definition locked_axes :: "link_obj \<Rightarrow> nat option" where
  "locked_axes joint =
     map_option
       (\<lambda>c. py_sum (use_min_x c \<and> use_max_x c \<and> min_x c = max_x c,
                     use_min_y c \<and> use_max_y c \<and> min_y c = max_y c,
                     use_min_z c \<and> use_max_z c \<and> min_z c = max_z c))
       (getJointConstraint joint ''LIMIT_LOCATION'')"

definition limited_rotations :: "link_obj \<Rightarrow> nat option" where
  "limited_rotations joint =
     map_option (\<lambda>c. py_sum (use_limit_x c, use_limit_y c, use_limit_z c))
       (getJointConstraint joint ''LIMIT_ROTATION'')"

text \<open>
  No translation axis of the location constraint has its min flag set and its max flag clear
  (the builders set and clear the two flags of an axis together).
\<close>

definition flags_paired :: "link_obj \<Rightarrow> bool" where
  "flags_paired joint =
     (case getJointConstraint joint ''LIMIT_LOCATION'' of
        None \<Rightarrow> True
      | Some c \<Rightarrow> (use_max_x c \<or> \<not> use_min_x c) \<and> (use_max_y c \<or> \<not> use_min_y c)
                  \<and> (use_max_z c \<or> \<not> use_min_z c))"

section \<open>A link and a scene to run the functions on\<close>

definition example_link :: link_obj where
  "example_link =
     \<lparr>name = ''arm'', phobostype = ''link'', props = (\<lambda>k. None), constraints = [],
      custom_shape = None, bone_head = (0, 0, 0), bone_tail = (0, 1, 0),
      matrix_basis = [[1, 0, 0, 0], [0, 1, 0, 0], [0, 0, 1, 0], [0, 0, 0, 1]]\<rparr>"

definition example_world :: world where
  "example_world =
     \<lparr>obj = example_link, logs = [], mode = ''OBJECT'', rigid_body_world = False,
      rigid_body_constraint = None, resources = (\<lambda>k. None)\<rparr>"

text \<open>The same scene with an object that is no link.\<close>

definition example_visual :: world where
  "example_visual = example_world\<lparr>obj := example_link\<lparr>phobostype := ''visual''\<rparr>\<rparr>"

text \<open>
  A link whose only constraint limits the location on x from below only (\<open>use_min_x\<close> set,
  \<open>use_max_x\<close> clear, both bounds 0).
\<close>

definition min_only_link :: link_obj where
  "min_only_link =
     example_link\<lparr>constraints := [(new_constraint ''LIMIT_LOCATION'')\<lparr>use_min_x := True\<rparr>]\<rparr>"

text \<open>
  A link with the three translation axes locked and a rotation limit on x alone.
\<close>

definition one_rotation_link :: link_obj where
  "one_rotation_link =
     example_link\<lparr>constraints :=
       [fix_location (new_constraint ''LIMIT_LOCATION''),
        (new_constraint ''LIMIT_ROTATION'')\<lparr>use_limit_x := True\<rparr>]\<rparr>"

text \<open>Joint definitions: one with an axis of length zero, one without limits, one whose
  limits lack the velocity and which carries a generic property.\<close>

definition zero_axis_joint :: joint_def where
  "zero_axis_joint =
     \<lparr>jname = ''arm'', jtype = ''fixed'', axis = Some (0, 0, 0), limits = None, generic = []\<rparr>"

definition no_limits_joint :: joint_def where
  "no_limits_joint =
     \<lparr>jname = ''elbow'', jtype = ''revolute'', axis = None, limits = None, generic = []\<rparr>"

definition effort_only_joint :: joint_def where
  "effort_only_joint =
     \<lparr>jname = ''elbow'', jtype = ''revolute'', axis = None,
      limits = Some \<lparr>lower = Some (- 1), upper = Some 1, effort = Some 50, velocity = None\<rparr>,
      generic = [(''$motor'', [(''type'', Str ''DC'')])]\<rparr>"

text \<open>
  The state in which \<open>createJoint\<close> calls \<open>setJointConstraints\<close>, for an identified link:
  after the name, the axis block and the limits block.
\<close>

definition before_constraints :: "joint_def \<Rightarrow> world \<Rightarrow> world" where
  "before_constraints joint w =
     fst (limits_block joint (axis_block joint
       (if jname joint \<noteq> name (obj w)
        then setprop ''joint/name'' (Str (jname joint)) w else w)))"

section \<open>What the builders leave on the bone\<close>

lemma remove_each_append: "remove_each xs (xs @ ys) = ys"
  by (induction xs) simp_all

lemma constraints_remove [simp]: "constraints (remove_constraints j) = []"
  using remove_each_append [of "constraints j" "[]"] by (simp add: remove_constraints_def)

lemma assign_in_last: "ctype c = ty \<Longrightarrow> assign_in ty f (cs @ [c]) = cs @ [f c]"
  by (induction cs) (auto simp: list_ex_iff)

lemma add_assign:
  "assign_constraint ty f (constraint_add ty j) =
     j\<lparr>constraints := constraints j @ [f (new_constraint ty)]\<rparr>"
  by (simp add: assign_constraint_def constraint_add_def assign_in_last new_constraint_def)

lemma constraints_set_revolute:
  "constraints (set_revolute lo up j) =
     constraints j @
       [(fix_location (new_constraint ''LIMIT_LOCATION''))\<lparr>owner_space := ''LOCAL''\<rparr>,
        (new_constraint ''LIMIT_ROTATION'')
          \<lparr>use_limit_x := True, use_limit_y := True, use_limit_z := True,
           min_y := lo, max_y := up, owner_space := ''LOCAL''\<rparr>]"
  by (simp add: set_revolute_def Let_def add_assign new_constraint_def)

lemma constraints_set_continuous:
  "constraints (set_continuous j) =
     constraints j @
       [(fix_location (new_constraint ''LIMIT_LOCATION''))\<lparr>owner_space := ''LOCAL''\<rparr>,
        (new_constraint ''LIMIT_ROTATION'')
          \<lparr>use_limit_x := True, use_limit_z := True, owner_space := ''LOCAL''\<rparr>]"
  by (simp add: set_continuous_def Let_def add_assign new_constraint_def)

lemma constraints_set_prismatic:
  "constraints (set_prismatic lo up j) =
     constraints j @
       [(if lo = up
         then (fix_location (new_constraint ''LIMIT_LOCATION''))
                \<lparr>use_min_y := False, use_max_y := False, owner_space := ''LOCAL''\<rparr>
         else (fix_location (new_constraint ''LIMIT_LOCATION''))
                \<lparr>min_y := lo, max_y := up, owner_space := ''LOCAL''\<rparr>),
        (new_constraint ''LIMIT_ROTATION'')
          \<lparr>use_limit_x := True, use_limit_y := True, use_limit_z := True,
           owner_space := ''LOCAL''\<rparr>]"
  by (simp add: set_prismatic_def Let_def add_assign new_constraint_def)

lemma constraints_set_fixed:
  "constraints (set_fixed j) =
     constraints j @
       [(fix_location (new_constraint ''LIMIT_LOCATION''))\<lparr>owner_space := ''LOCAL''\<rparr>,
        (new_constraint ''LIMIT_ROTATION'')
          \<lparr>use_limit_x := True, use_limit_y := True, use_limit_z := True,
           owner_space := ''LOCAL''\<rparr>]"
  by (simp add: set_fixed_def Let_def add_assign new_constraint_def)

lemma constraints_set_planar:
  "constraints (set_planar j) =
     constraints j @
       [(new_constraint ''LIMIT_LOCATION'')
          \<lparr>use_min_y := True, use_max_y := True, owner_space := ''LOCAL''\<rparr>,
        (new_constraint ''LIMIT_ROTATION'')
          \<lparr>use_limit_x := True, use_limit_y := True, use_limit_z := True,
           owner_space := ''LOCAL''\<rparr>]"
  by (simp add: set_planar_def Let_def add_assign new_constraint_def)

lemmas constraints_set =
  constraints_set_revolute constraints_set_continuous constraints_set_prismatic
  constraints_set_fixed constraints_set_planar

lemma obj_log [simp]: "obj (log m l w) = obj w"
  by (simp add: log_def)

lemma constraints_setprop [simp]: "constraints (obj (setprop k v w)) = constraints (obj w)"
  by (simp add: setprop_def)

lemma phobostype_setprop [simp]: "phobostype (obj (setprop k v w)) = phobostype (obj w)"
  by (simp add: setprop_def)

lemma constraints_spring_block [simp]:
  "constraints (obj (spring_block s d w)) = constraints (obj w)"
  by (simp add: spring_block_def Let_def)

lemma constraints_resource_block [simp]:
  "constraints (obj (resource_block t w)) = constraints (obj w)"
  by (simp add: resource_block_def Let_def split: option.split)

lemma constraints_maxeffort_block [simp]:
  "constraints (obj (snd (maxeffort_block a w))) = constraints (obj w)"
  by (simp add: maxeffort_block_def Let_def split: option.split sum.split)

lemma constraints_maxspeed_block [simp]:
  "constraints (obj (snd (maxspeed_block a w))) = constraints (obj w)"
  by (simp add: maxspeed_block_def Let_def split: option.split sum.split)

lemma constraints_approximations:
  "constraints (obj (snd (case maxeffort_block a w of
       (Some e, w) \<Rightarrow> (Some e, w)
     | (None, w) \<Rightarrow>
         (case maxspeed_block b w of
            (Some e, w) \<Rightarrow> (Some e, w)
          | (None, w) \<Rightarrow> (None, resource_block t w))))) = constraints (obj w)"
proof -
  obtain e1 w1 where 1: "maxeffort_block a w = (e1, w1)" by (cases "maxeffort_block a w")
  obtain e2 w2 where 2: "maxspeed_block b w1 = (e2, w2)" by (cases "maxspeed_block b w1")
  have c1: "constraints (obj w1) = constraints (obj w)"
    using constraints_maxeffort_block [of a w] 1 by simp
  have c2: "constraints (obj w2) = constraints (obj w1)"
    using constraints_maxspeed_block [of b w1] 2 by simp
  show ?thesis
    by (simp add: 1 2 c1 c2 split: option.split)
qed

lemma constraints_type_block:
  "constraints (obj (type_block t lo up w)) =
     (if t = ''revolute'' then constraints (set_revolute lo up (obj w))
      else if t = ''continuous'' then constraints (set_continuous (obj w))
      else if t = ''prismatic'' then constraints (set_prismatic lo up (obj w))
      else if t = ''fixed'' then constraints (set_fixed (obj w))
      else if t = ''floating'' then constraints (obj w)
      else if t = ''planar'' then constraints (set_planar (obj w))
      else constraints (obj w))"
  by (simp add: type_block_def)

lemma constraints_setJointConstraints:
  assumes "phobostype (obj w) = ''link''"
  shows "constraints (obj (snd (setJointConstraints t lo up s d a b w))) =
     (if t = ''revolute'' then constraints (set_revolute lo up (remove_constraints (obj w)))
      else if t = ''continuous'' then constraints (set_continuous (remove_constraints (obj w)))
      else if t = ''prismatic'' then constraints (set_prismatic lo up (remove_constraints (obj w)))
      else if t = ''fixed'' then constraints (set_fixed (remove_constraints (obj w)))
      else if t = ''floating'' then []
      else if t = ''planar'' then constraints (set_planar (remove_constraints (obj w)))
      else [])"
  using assms
  by (simp add: setJointConstraints_def Let_def constraints_approximations
        constraints_type_block constraints_set)

section \<open>Classifying what a builder wrote\<close>

lemma loop_append:
  "getJointType_loop (xs @ ys) s = getJointType_loop ys (getJointType_loop xs s)"
  by (induction xs s rule: getJointType_loop.induct) simp_all

lemma loop_last_two:
  assumes "ctype l = ''LIMIT_LOCATION''" and "ctype r = ''LIMIT_ROTATION''"
  shows "getJointType_loop (cs @ [l, r]) s =
     (Some (use_min_x l \<and> min_x l = max_x l,
            use_min_y l \<and> min_y l = max_y l,
            use_min_z l \<and> min_z l = max_z l),
      Some (r, (use_limit_x r \<and> (min_x r \<noteq> 0 \<or> max_x r \<noteq> 0),
                use_limit_y r \<and> (min_y r \<noteq> 0 \<or> max_y r \<noteq> 0),
                use_limit_z r \<and> (min_z r \<noteq> 0 \<or> max_z r \<noteq> 0))))"
  using assms by (cases "getJointType_loop cs s") (simp add: loop_append)

lemma getJointType_last_two:
  assumes "constraints j = cs @ [l, r]"
    and "ctype l = ''LIMIT_LOCATION''" and "ctype r = ''LIMIT_ROTATION''"
  shows "fst (getJointType j) =
     (let ncloc = py_sum (use_min_x l \<and> min_x l = max_x l,
                          use_min_y l \<and> min_y l = max_y l,
                          use_min_z l \<and> min_z l = max_z l);
          ncrot = py_sum (use_limit_x r, use_limit_y r, use_limit_z r)
      in if ncloc = 3 then
           (if ncrot = 3 then
              (if py_sum (use_limit_x r \<and> (min_x r \<noteq> 0 \<or> max_x r \<noteq> 0),
                          use_limit_y r \<and> (min_y r \<noteq> 0 \<or> max_y r \<noteq> 0),
                          use_limit_z r \<and> (min_z r \<noteq> 0 \<or> max_z r \<noteq> 0)) > 0
               then ''revolute'' else ''fixed'')
            else if ncrot = 2 then ''continuous'' else ''floating'')
         else if ncloc = 2 then ''prismatic''
         else if ncloc = 1 then ''planar'' else ''floating'')"
  unfolding getJointType_def assms(1) loop_last_two [OF assms(2) assms(3)]
  by (simp add: Let_def)

lemma classify_revolute:
  "lo < up \<Longrightarrow> fst (getJointType (set_revolute lo up j)) = ''revolute''"
  by (subst getJointType_last_two [OF constraints_set_revolute])
     (auto simp: new_constraint_def fix_location_def)

lemma classify_continuous: "fst (getJointType (set_continuous j)) = ''continuous''"
  by (subst getJointType_last_two [OF constraints_set_continuous])
     (auto simp: new_constraint_def fix_location_def)

lemma classify_prismatic:
  "lo < up \<Longrightarrow> fst (getJointType (set_prismatic lo up j)) = ''prismatic''"
  by (subst getJointType_last_two [OF constraints_set_prismatic])
     (auto simp: new_constraint_def fix_location_def)

lemma classify_fixed: "fst (getJointType (set_fixed j)) = ''fixed''"
  by (subst getJointType_last_two [OF constraints_set_fixed])
     (auto simp: new_constraint_def fix_location_def)

lemma classify_planar: "fst (getJointType (set_planar j)) = ''planar''"
  by (subst getJointType_last_two [OF constraints_set_planar])
     (auto simp: new_constraint_def fix_location_def)

lemma getJointType_cong:
  "constraints a = constraints b \<Longrightarrow> getJointType a = getJointType b"
  by (simp add: getJointType_def)

lemma getJointConstraint_loop_append:
  "getJointConstraint_loop con (xs @ ys) ty =
     getJointConstraint_loop (getJointConstraint_loop con xs ty) ys ty"
  by (induction xs arbitrary: con) simp_all

lemma getJointConstraint_last_two:
  assumes "constraints j = cs @ [l, r]"
    and "ctype l = ''LIMIT_LOCATION''" and "ctype r = ''LIMIT_ROTATION''"
  shows "getJointConstraint j ''LIMIT_LOCATION'' = Some l"
    and "getJointConstraint j ''LIMIT_ROTATION'' = Some r"
  using assms by (simp_all add: getJointConstraint_def getJointConstraint_loop_append)

lemmas run_defs =
  example_world_def example_link_def new_constraint_def fix_location_def
  getJointType_def deriveJointType_def getJointConstraints_def getJointConstraint_def
  under_defined_def Let_def

lemmas sjc_defs =
  setJointConstraints_def maxeffort_block_def maxspeed_block_def getitem_def
  resource_block_def spring_block_def type_block_def log_def setprop_def remove_constraints_def
  set_revolute_def constraint_add_def assign_constraint_def

section \<open>What \<open>createJoint\<close> and \<open>setJointConstraints\<close> leave alone\<close>

lemma logs_log [simp]: "logs (log m l w) = logs w @ [(l, m)]"
  by (simp add: log_def)

lemma logs_setprop [simp]: "logs (setprop k v w) = logs w"
  by (simp add: setprop_def)

lemma props_setprop [simp]: "props (obj (setprop k v w)) = (props (obj w))(k \<mapsto> v)"
  by (simp add: setprop_def)

lemma bone_setprop [simp]:
  "bone_head (obj (setprop k v w)) = bone_head (obj w)"
  "bone_tail (obj (setprop k v w)) = bone_tail (obj w)"
  by (simp_all add: setprop_def)

lemma builders_frame:
  "phobostype (set_revolute lo up j) = phobostype j \<and> props (set_revolute lo up j) = props j
   \<and> bone_head (set_revolute lo up j) = bone_head j \<and> bone_tail (set_revolute lo up j) = bone_tail j"
  "phobostype (set_continuous j) = phobostype j \<and> props (set_continuous j) = props j
   \<and> bone_head (set_continuous j) = bone_head j \<and> bone_tail (set_continuous j) = bone_tail j"
  "phobostype (set_prismatic lo up j) = phobostype j \<and> props (set_prismatic lo up j) = props j
   \<and> bone_head (set_prismatic lo up j) = bone_head j \<and> bone_tail (set_prismatic lo up j) = bone_tail j"
  "phobostype (set_fixed j) = phobostype j \<and> props (set_fixed j) = props j
   \<and> bone_head (set_fixed j) = bone_head j \<and> bone_tail (set_fixed j) = bone_tail j"
  "phobostype (set_planar j) = phobostype j \<and> props (set_planar j) = props j
   \<and> bone_head (set_planar j) = bone_head j \<and> bone_tail (set_planar j) = bone_tail j"
  by (simp_all add: set_revolute_def set_continuous_def set_prismatic_def set_fixed_def
        set_planar_def Let_def constraint_add_def assign_constraint_def)

lemma type_block_frame:
  "phobostype (obj (type_block t lo up w)) = phobostype (obj w)"
  "props (obj (type_block t lo up w)) = props (obj w)"
  "bone_head (obj (type_block t lo up w)) = bone_head (obj w)"
  "bone_tail (obj (type_block t lo up w)) = bone_tail (obj w)"
  by (simp_all add: type_block_def builders_frame)

lemma type_block_logs: "\<exists>more. logs (type_block t lo up w) = logs w @ more"
  by (simp add: type_block_def)

lemma resource_block_frame:
  "props (obj (resource_block t w)) = props (obj w)"
  "bone_head (obj (resource_block t w)) = bone_head (obj w)"
  "bone_tail (obj (resource_block t w)) = bone_tail (obj w)"
  by (simp_all add: resource_block_def split: option.split)

lemma resource_block_logs: "\<exists>more. logs (resource_block t w) = logs w @ more"
  by (simp add: resource_block_def split: option.split)

text \<open>What \<open>setJointConstraints\<close> does when called as \<open>createJoint\<close> calls it.\<close>

lemma sjc_plain:
  "setJointConstraints t lo up 0 0 None None w =
     (None,
      if phobostype (obj w) \<noteq> ''link'' then log (NotALink (name (obj w))) ERROR w
      else resource_block t
             ((setprop ''joint/type'' (Str t)
                (type_block t lo up
                  ((log (SettingJointConstraints (name (obj w))) DEBUG w)
                     \<lparr>mode := ''POSE'', obj := remove_constraints (obj w)\<rparr>)))
              \<lparr>mode := ''OBJECT''\<rparr>))"
  by (simp add: setJointConstraints_def Let_def maxeffort_block_def maxspeed_block_def)

lemma sjc_plain_fst: "fst (setJointConstraints t lo up 0 0 None None w) = None"
  by (simp add: sjc_plain)

lemma sjc_plain_bone:
  "bone_head (obj (snd (setJointConstraints t lo up 0 0 None None w))) = bone_head (obj w)"
  "bone_tail (obj (snd (setJointConstraints t lo up 0 0 None None w))) = bone_tail (obj w)"
  by (simp_all add: sjc_plain resource_block_frame type_block_frame remove_constraints_def)

lemma sjc_plain_props:
  "props (obj (snd (setJointConstraints t lo up 0 0 None None w))) =
     (if phobostype (obj w) = ''link'' then (props (obj w))(''joint/type'' \<mapsto> Str t)
      else props (obj w))"
  by (simp add: sjc_plain resource_block_frame type_block_frame remove_constraints_def)

lemma sjc_plain_logs:
  "\<exists>more. logs (snd (setJointConstraints t lo up 0 0 None None w)) = logs w @ more"
proof (cases "phobostype (obj w) = ''link''")
  case False
  then show ?thesis by (simp add: sjc_plain)
next
  case True
  define w1 where "w1 = (log (SettingJointConstraints (name (obj w))) DEBUG w)
                     \<lparr>mode := ''POSE'', obj := remove_constraints (obj w)\<rparr>"
  define w2 where "w2 = (setprop ''joint/type'' (Str t) (type_block t lo up w1))
                     \<lparr>mode := ''OBJECT''\<rparr>"
  obtain m1 where m1: "logs (type_block t lo up w1) = logs w1 @ m1"
    using type_block_logs by blast
  obtain m2 where m2: "logs (resource_block t w2) = logs w2 @ m2"
    using resource_block_logs by blast
  have "logs (snd (setJointConstraints t lo up 0 0 None None w)) = logs (resource_block t w2)"
    using True by (simp add: sjc_plain w1_def w2_def)
  also have "\<dots> = logs w2 @ m2" by (rule m2)
  also have "logs w2 = logs (type_block t lo up w1)" by (simp add: w2_def)
  also have "\<dots> = logs w1 @ m1" by (rule m1)
  also have "logs w1 = logs w @ [(DEBUG, SettingJointConstraints (name (obj w)))]"
    by (simp add: w1_def)
  finally show ?thesis by simp
qed

lemma key_no_slash:
  assumes "CHR ''/'' \<notin> set r"
  shows "''joint/'' @ p @ ''/'' @ tag \<noteq> ''joint/'' @ r"
proof
  assume "''joint/'' @ p @ ''/'' @ tag = ''joint/'' @ r"
  then have "p @ ''/'' @ tag = r" by simp
  then have "CHR ''/'' \<in> set r" by auto
  with assms show False by simp
qed

lemma add_tags_frame:
  "logs (add_tags p tags w) = logs w"
  "constraints (obj (add_tags p tags w)) = constraints (obj w)"
  "bone_head (obj (add_tags p tags w)) = bone_head (obj w)"
  "bone_tail (obj (add_tags p tags w)) = bone_tail (obj w)"
  by (induction p tags w rule: add_tags.induct) simp_all

lemma add_tags_props:
  assumes "CHR ''/'' \<notin> set r"
  shows "props (obj (add_tags p tags w)) (''joint/'' @ r) = props (obj w) (''joint/'' @ r)"
proof (induction p tags w rule: add_tags.induct)
  case (1 p w)
  show ?case by simp
next
  case (2 p tag v tags w)
  have "''joint/'' @ tl p @ ''/'' @ tag \<noteq> ''joint/'' @ r"
    by (rule key_no_slash [OF assms])
  then have "props (obj (setprop (''joint/'' @ tl p @ ''/'' @ tag) v w)) (''joint/'' @ r)
      = props (obj w) (''joint/'' @ r)"
    by (simp del: append.simps)
  with 2 show ?case by (simp del: append.simps)
qed

lemma add_generic_frame:
  "logs (add_generic g w) = logs w"
  "constraints (obj (add_generic g w)) = constraints (obj w)"
  "bone_head (obj (add_generic g w)) = bone_head (obj w)"
  "bone_tail (obj (add_generic g w)) = bone_tail (obj w)"
  by (induction g w rule: add_generic.induct) (simp_all add: add_tags_frame)

lemma add_generic_props:
  assumes "CHR ''/'' \<notin> set r"
  shows "props (obj (add_generic g w)) (''joint/'' @ r) = props (obj w) (''joint/'' @ r)"
  by (induction g w rule: add_generic.induct)
     (simp_all add: add_tags_props [OF assms] del: append.simps)

lemma axis_block_frame:
  "constraints (obj (axis_block joint w)) = constraints (obj w)"
  "phobostype (obj (axis_block joint w)) = phobostype (obj w)"
  "props (obj (axis_block joint w)) = props (obj w)"
  by (simp_all add: axis_block_def Let_def split: option.split)

lemma axis_block_zero:
  assumes "axis joint = Some a" and "vec_length a = 0"
  shows "axis_block joint w = log (AxisZeroLength (jname joint)) ERROR w"
  using assms by (simp add: axis_block_def)

lemma limits_block_frame:
  "constraints (obj (fst (limits_block joint w))) = constraints (obj w)"
  "phobostype (obj (fst (limits_block joint w))) = phobostype (obj w)"
  "bone_head (obj (fst (limits_block joint w))) = bone_head (obj w)"
  "bone_tail (obj (fst (limits_block joint w))) = bone_tail (obj w)"
  by (simp_all add: limits_block_def Let_def split: option.split)

lemma limits_block_logs: "\<exists>more. logs (fst (limits_block joint w)) = logs w @ more"
  by (simp add: limits_block_def Let_def split: option.split)

lemma sjc_constraints_cong:
  assumes "phobostype (obj w1) = phobostype (obj w2)"
    and "constraints (obj w1) = constraints (obj w2)"
  shows "constraints (obj (snd (setJointConstraints t lo up 0 0 None None w1))) =
         constraints (obj (snd (setJointConstraints t lo up 0 0 None None w2)))"
proof (cases "phobostype (obj w2) = ''link''")
  case True
  with assms(1) have 1: "phobostype (obj w1) = ''link''" by simp
  show ?thesis
    unfolding constraints_setJointConstraints [OF 1] constraints_setJointConstraints [OF True]
    by (simp add: constraints_set)
next
  case False
  with assms show ?thesis by (simp add: sjc_plain)
qed

lemma createJoint_identified:
  "createJoint joint True w =
     (let w0 = (if jname joint \<noteq> name (obj w)
                then setprop ''joint/name'' (Str (jname joint)) w else w);
          lb = limits_block joint (axis_block joint w0);
          w2 = snd (setJointConstraints (jtype joint) (fst (snd lb)) (snd (snd lb)) 0 0
                     None None (fst lb));
          w3 = add_generic (generic joint) w2
      in (None, log (AssignedJointInformation (name (obj w3))) DEBUG w3))"
proof -
  define w0 where "w0 = (if jname joint \<noteq> name (obj w)
                then setprop ''joint/name'' (Str (jname joint)) w else w)"
  obtain w1 lo up where lb: "limits_block joint (axis_block joint w0) = (w1, lo, up)"
    by (cases "limits_block joint (axis_block joint w0)")
  obtain e w2 where s: "setJointConstraints (jtype joint) lo up 0 0 None None w1 = (e, w2)"
    by (cases "setJointConstraints (jtype joint) lo up 0 0 None None w1")
  have e: "e = None" using sjc_plain_fst [of "jtype joint" lo up w1] s by simp
  show ?thesis
    unfolding createJoint_def Let_def w0_def [symmetric]
    by (simp add: lb s e)
qed

lemma limits_block_default:
  assumes "case limits joint of None \<Rightarrow> True
           | Some lims \<Rightarrow> lower lims = None \<or> upper lims = None"
  shows "snd (limits_block joint w) = (- (1 / 100000), 1 / 100000)"
    and "(WARNING, LimitsDefaulted) \<in> set (logs (fst (limits_block joint w)))
         \<or> (WARNING, LimitsDefaultedBoth) \<in> set (logs (fst (limits_block joint w)))"
  using assms by (auto simp: limits_block_def Let_def split: option.splits)

lemma limits_block_given:
  assumes "limits joint = Some lims" and "lower lims = Some lo" and "upper lims = Some up"
  shows "snd (limits_block joint w) = (lo, up)"
  using assms by (simp add: limits_block_def Let_def)

lemma limits_block_effort:
  assumes "limits joint = Some lims"
  shows "case effort lims of
           Some v \<Rightarrow> props (obj (fst (limits_block joint w))) ''joint/maxEffort'' = Some (Num v)
         | None \<Rightarrow> (ERROR, LimitsIncomplete (jname joint) ''effort'')
                     \<in> set (logs (fst (limits_block joint w)))"
  using assms by (simp add: limits_block_def Let_def split: option.splits)

lemma limits_block_velocity:
  assumes "limits joint = Some lims"
  shows "case velocity lims of
           Some v \<Rightarrow> props (obj (fst (limits_block joint w))) ''joint/maxSpeed'' = Some (Num v)
         | None \<Rightarrow> (ERROR, LimitsIncomplete (jname joint) ''velocity'')
                     \<in> set (logs (fst (limits_block joint w)))"
  using assms by (simp add: limits_block_def Let_def split: option.splits)

lemma limits_block_bounds: "snd (limits_block joint w) = snd (limits_block joint w')"
  by (simp add: limits_block_def Let_def split: option.splits)

lemma before_constraints_frame:
  "constraints (obj (before_constraints joint w)) = constraints (obj w)"
  "phobostype (obj (before_constraints joint w)) = phobostype (obj w)"
  by (simp_all add: before_constraints_def limits_block_frame axis_block_frame)

lemma createJoint_result:
  "fst (createJoint joint True w) = None"
  "logs (snd (createJoint joint True w)) =
     logs (snd (setJointConstraints (jtype joint) (fst (snd (limits_block joint w)))
                 (snd (snd (limits_block joint w))) 0 0 None None (before_constraints joint w)))
       @ [(DEBUG, AssignedJointInformation (name (obj (snd (createJoint joint True w)))))]"
  "obj (snd (createJoint joint True w)) =
     obj (add_generic (generic joint)
       (snd (setJointConstraints (jtype joint) (fst (snd (limits_block joint w)))
              (snd (snd (limits_block joint w))) 0 0 None None (before_constraints joint w))))"
proof -
  let ?w0 = "if jname joint \<noteq> name (obj w)
        then setprop ''joint/name'' (Str (jname joint)) w else w"
  have b: "snd (limits_block joint (axis_block joint ?w0)) = snd (limits_block joint w)"
    by (rule limits_block_bounds)
  show "fst (createJoint joint True w) = None"
    by (simp add: createJoint_identified Let_def)
  show "logs (snd (createJoint joint True w)) =
     logs (snd (setJointConstraints (jtype joint) (fst (snd (limits_block joint w)))
                 (snd (snd (limits_block joint w))) 0 0 None None (before_constraints joint w)))
       @ [(DEBUG, AssignedJointInformation (name (obj (snd (createJoint joint True w)))))]"
    unfolding createJoint_identified Let_def before_constraints_def b
    by (simp add: add_generic_frame)
  show "obj (snd (createJoint joint True w)) =
     obj (add_generic (generic joint)
       (snd (setJointConstraints (jtype joint) (fst (snd (limits_block joint w)))
              (snd (snd (limits_block joint w))) 0 0 None None (before_constraints joint w))))"
    unfolding createJoint_identified Let_def before_constraints_def b
    by simp
qed

lemma createJoint_constraints:
  "constraints (obj (snd (createJoint joint True w))) =
     constraints (obj (snd (setJointConstraints (jtype joint) (fst (snd (limits_block joint w)))
                 (snd (snd (limits_block joint w))) 0 0 None None w)))"
  unfolding createJoint_result(3) add_generic_frame(2)
  by (rule sjc_constraints_cong) (simp_all add: before_constraints_frame)

lemma createJoint_logs_mono:
  assumes "x \<in> set (logs (before_constraints joint w))"
  shows "x \<in> set (logs (snd (createJoint joint True w)))"
proof -
  obtain more where
    "logs (snd (setJointConstraints (jtype joint) (fst (snd (limits_block joint w)))
                 (snd (snd (limits_block joint w))) 0 0 None None (before_constraints joint w)))
     = logs (before_constraints joint w) @ more"
    using sjc_plain_logs by blast
  with assms show ?thesis unfolding createJoint_result(2) by simp
qed

lemma limits_block_logs_mono:
  assumes "x \<in> set (logs v)"
  shows "x \<in> set (logs (fst (limits_block joint v)))"
proof -
  obtain more where "logs (fst (limits_block joint v)) = logs v @ more"
    using limits_block_logs by blast
  with assms show ?thesis by simp
qed

lemma before_constraints_zero_axis:
  assumes "axis joint = Some a" and "vec_length a = 0"
  shows "(ERROR, AxisZeroLength (jname joint)) \<in> set (logs (before_constraints joint w))"
    and "bone_head (obj (before_constraints joint w)) = bone_head (obj w)"
    and "bone_tail (obj (before_constraints joint w)) = bone_tail (obj w)"
proof -
  show "(ERROR, AxisZeroLength (jname joint)) \<in> set (logs (before_constraints joint w))"
    unfolding before_constraints_def
    by (rule limits_block_logs_mono) (simp add: axis_block_zero [OF assms])
  show "bone_head (obj (before_constraints joint w)) = bone_head (obj w)"
    unfolding before_constraints_def limits_block_frame axis_block_zero [OF assms] by simp
  show "bone_tail (obj (before_constraints joint w)) = bone_tail (obj w)"
    unfolding before_constraints_def limits_block_frame axis_block_zero [OF assms] by simp
qed

lemma createJoint_props_kept:
  assumes "CHR ''/'' \<notin> set r" and "''joint/'' @ r \<noteq> ''joint/type''"
  shows "props (obj (snd (createJoint joint True w))) (''joint/'' @ r) =
         props (obj (before_constraints joint w)) (''joint/'' @ r)"
  unfolding createJoint_result(3) add_generic_props [OF assms(1)] sjc_plain_props
  using assms(2) by (simp del: append.simps)

section \<open>The code against the constraint sets and counts of the specification\<close>

text \<open>
  What the loop of \<open>getJointType\<close> holds at its end, in terms of the constraints
  \<open>getJointConstraint\<close> finds.
\<close>

lemma getJointType_loop_last:
  "getJointType_loop cs (None, None) =
     (map_option
        (\<lambda>c. (use_min_x c \<and> min_x c = max_x c,
              use_min_y c \<and> min_y c = max_y c,
              use_min_z c \<and> min_z c = max_z c))
        (getJointConstraint_loop None cs ''LIMIT_LOCATION''),
      map_option
        (\<lambda>c. (c, (use_limit_x c \<and> (min_x c \<noteq> 0 \<or> max_x c \<noteq> 0),
                  use_limit_y c \<and> (min_y c \<noteq> 0 \<or> max_y c \<noteq> 0),
                  use_limit_z c \<and> (min_z c \<noteq> 0 \<or> max_z c \<noteq> 0))))
        (getJointConstraint_loop None cs ''LIMIT_ROTATION''))"
  by (induction cs rule: rev_induct)
     (simp_all add: loop_append getJointConstraint_loop_append)

text \<open>
  On a link, \<open>setJointConstraints\<close> leaves exactly the constraint set of the type; the limits
  block of \<open>createJoint\<close> computes the bounds of the definition.
\<close>

lemma constraints_setJointConstraints_spec:
  assumes "phobostype (obj w) = ''link''"
  shows "constraints (obj (snd (setJointConstraints t lo up s d a b w))) =
         spec_constraint_set t lo up"
  unfolding constraints_setJointConstraints [OF assms] spec_constraint_set_def
  by (simp add: constraints_set new_constraint_def fix_location_def location_record_def
        rotation_record_def)

lemma limits_block_spec_bounds: "snd (limits_block joint w) = spec_bounds joint"
  by (simp add: limits_block_def spec_bounds_def Let_def split: option.splits)

lemma createJoint_constraints_spec:
  "constraints (obj (snd (createJoint joint True w))) =
     (if phobostype (obj w) = ''link''
      then spec_constraint_set (jtype joint) (fst (spec_bounds joint)) (snd (spec_bounds joint))
      else constraints (obj w))"
proof (cases "phobostype (obj w) = ''link''")
  case True
  then show ?thesis
    unfolding createJoint_constraints limits_block_spec_bounds
    by (simp add: constraints_setJointConstraints_spec)
next
  case False
  then show ?thesis
    unfolding createJoint_constraints limits_block_spec_bounds
    by (simp add: sjc_plain)
qed

lemma createJoint_type_written:
  assumes "phobostype (obj w) = ''link''"
  shows "props (obj (snd (createJoint joint True w))) ''joint/type'' = Some (Str (jtype joint))"
proof -
  have lb: "phobostype (obj (before_constraints joint w)) = ''link''"
    by (simp add: before_constraints_frame assms)
  have "props (obj (snd (createJoint joint True w))) (''joint/'' @ ''type'')
       = Some (Str (jtype joint))"
    unfolding createJoint_result(3)
    by (subst add_generic_props) (simp_all add: sjc_plain_props lb)
  then show ?thesis by simp
qed

section \<open>The claims\<close>

text \<open>
  C1. On a link, for each of the types fixed, revolute, continuous, prismatic and planar and
  for limits with \<open>lo < up\<close>, \<open>getJointType\<close> applied to the constraints
  \<open>setJointConstraints\<close> wrote (spring and damping zero, whatever the approximation
  arguments) answers that type.
\<close>

theorem classify_build_roundtrip:
  assumes "phobostype (obj w) = ''link''" and "lo < up"
    and "t \<in> {''fixed'', ''revolute'', ''continuous'', ''prismatic'', ''planar''}"
  shows "fst (getJointType (obj (snd (setJointConstraints t lo up 0 0 a b w)))) = t"
proof -
  define j where "j = obj (snd (setJointConstraints t lo up 0 0 a b w))"
  define r where "r = remove_constraints (obj w)"
  have c: "constraints j =
     (if t = ''revolute'' then constraints (set_revolute lo up r)
      else if t = ''continuous'' then constraints (set_continuous r)
      else if t = ''prismatic'' then constraints (set_prismatic lo up r)
      else if t = ''fixed'' then constraints (set_fixed r)
      else if t = ''floating'' then []
      else if t = ''planar'' then constraints (set_planar r)
      else [])"
    unfolding j_def r_def by (rule constraints_setJointConstraints [OF assms(1)])
  from assms(3) have
    "t = ''fixed'' \<or> t = ''revolute'' \<or> t = ''continuous'' \<or> t = ''prismatic'' \<or> t = ''planar''"
    by (simp only: insert_iff empty_iff simp_thms)
  then have "fst (getJointType j) = t"
  proof (elim disjE)
    assume 1: "t = ''fixed''"
    have "constraints j = constraints (set_fixed r)" unfolding c 1 by simp
    then have "getJointType j = getJointType (set_fixed r)" by (rule getJointType_cong)
    then show ?thesis unfolding 1 by (simp only: classify_fixed)
  next
    assume 2: "t = ''revolute''"
    have "constraints j = constraints (set_revolute lo up r)" unfolding c 2 by simp
    then have "getJointType j = getJointType (set_revolute lo up r)" by (rule getJointType_cong)
    then show ?thesis unfolding 2 by (simp only: classify_revolute [OF assms(2)])
  next
    assume 3: "t = ''continuous''"
    have "constraints j = constraints (set_continuous r)" unfolding c 3 by simp
    then have "getJointType j = getJointType (set_continuous r)" by (rule getJointType_cong)
    then show ?thesis unfolding 3 by (simp only: classify_continuous)
  next
    assume 4: "t = ''prismatic''"
    have "constraints j = constraints (set_prismatic lo up r)" unfolding c 4 by simp
    then have "getJointType j = getJointType (set_prismatic lo up r)" by (rule getJointType_cong)
    then show ?thesis unfolding 4 by (simp only: classify_prismatic [OF assms(2)])
  next
    assume 5: "t = ''planar''"
    have "constraints j = constraints (set_planar r)" unfolding c 5 by simp
    then have "getJointType j = getJointType (set_planar r)" by (rule getJointType_cong)
    then show ?thesis unfolding 5 by (simp only: classify_planar)
  qed
  then show ?thesis unfolding j_def .
qed

theorem classify_build_roundtrip_witness:
  "phobostype (obj example_world) = ''link'' \<and> (-1::real) < 1
   \<and> fst (getJointType (obj (snd (setJointConstraints ''prismatic'' (-1) 1 0 0 None None
            example_world)))) = ''prismatic''"
proof -
  have l: "phobostype (obj example_world) = ''link''"
    by (simp add: example_world_def example_link_def)
  have t: "''prismatic'' \<in> {''fixed'', ''revolute'', ''continuous'', ''prismatic'', ''planar''}"
    by (simp only: insert_iff simp_thms)
  have o: "(-1::real) < 1" by simp
  show ?thesis
    using l o classify_build_roundtrip [OF l o t, of None None] by (simp only: simp_thms)
qed

text \<open>
  C10. On an object whose \<open>phobostype\<close> is not \<open>link\<close>, \<open>setJointConstraints\<close> logs an error
  and returns: the object is unchanged (no constraint removed or added, no property written),
  and so is everything else but the log.
\<close>

theorem setJointConstraints_not_link:
  assumes "phobostype (obj w) \<noteq> ''link''"
  shows "setJointConstraints t lo up s d a b w =
           (None, w\<lparr>logs := logs w @ [(ERROR, NotALink (name (obj w)))]\<rparr>)
         \<and> obj (snd (setJointConstraints t lo up s d a b w)) = obj w"
  using assms by (simp add: setJointConstraints_def log_def)

theorem setJointConstraints_not_link_witness:
  "phobostype (obj example_visual) \<noteq> ''link''
   \<and> setJointConstraints ''revolute'' (-1) 1 2 3 (Some [(''function'', Str ''poly'')]) None
        example_visual =
       (None, example_visual\<lparr>logs := [(ERROR, NotALink ''arm'')]\<rparr>)
   \<and> obj (snd (setJointConstraints ''revolute'' (-1) 1 2 3
        (Some [(''function'', Str ''poly'')]) None example_visual)) = obj example_visual"
proof -
  have p: "phobostype (obj example_visual) \<noteq> ''link''"
    by (simp add: example_visual_def example_link_def)
  have n: "name (obj example_visual) = ''arm''" "logs example_visual = []"
    by (simp_all add: example_visual_def example_link_def example_world_def)
  show ?thesis
    using p setJointConstraints_not_link [OF p, of "''revolute''" "-1" 1 2 3
        "Some [(''function'', Str ''poly'')]" None]
    by (simp add: n)
qed

text \<open>
  C6. \<open>set_prismatic\<close> with \<open>lower = upper\<close> leaves the y axis of the location constraint
  with both enable flags clear and the bounds of a fresh constraint; with \<open>lower \<noteq> upper\<close> it
  leaves the y axis enabled with the range \<open>(lower, upper)\<close>.
\<close>

theorem set_prismatic_ty:
  "\<exists>cloc. getJointConstraint (set_prismatic lo up joint) ''LIMIT_LOCATION'' = Some cloc
     \<and> (if lo = up
        then \<not> use_min_y cloc \<and> \<not> use_max_y cloc \<and> min_y cloc = 0 \<and> max_y cloc = 0
        else use_min_y cloc \<and> use_max_y cloc \<and> min_y cloc = lo \<and> max_y cloc = up)"
  by (subst getJointConstraint_last_two(1) [OF constraints_set_prismatic])
     (simp_all add: new_constraint_def fix_location_def)

theorem set_prismatic_ty_witness:
  "(\<exists>cloc. getJointConstraint (set_prismatic 5 5 example_link) ''LIMIT_LOCATION'' = Some cloc
      \<and> \<not> use_min_y cloc \<and> \<not> use_max_y cloc \<and> min_y cloc = 0 \<and> max_y cloc = 0)
   \<and> (\<exists>cloc. getJointConstraint (set_prismatic 1 2 example_link) ''LIMIT_LOCATION'' = Some cloc
      \<and> use_min_y cloc \<and> use_max_y cloc \<and> min_y cloc = 1 \<and> max_y cloc = 2)"
  using set_prismatic_ty [of 5 5 example_link] set_prismatic_ty [of 1 2 example_link]
  by simp

text \<open>
  C9. \<open>deriveJointState\<close> leaves the state as it found it, a second call returns what the
  first returned, and the result is the same on any two states whose link has the same pose
  matrix.
\<close>

theorem deriveJointState_pure:
  "snd (deriveJointState mu w) = w
   \<and> fst (deriveJointState mu (snd (deriveJointState mu w))) = fst (deriveJointState mu w)
   \<and> (matrix_basis (obj w') = matrix_basis (obj w)
        \<longrightarrow> fst (deriveJointState mu w') = fst (deriveJointState mu w))"
  by (simp add: deriveJointState_def)

theorem deriveJointState_pure_witness:
  "\<forall>mu. matrix_basis (obj (log LimitsDefaulted WARNING example_world))
          = matrix_basis (obj example_world)
     \<and> fst (deriveJointState mu (log LimitsDefaulted WARNING example_world))
          = fst (deriveJointState mu example_world)
     \<and> snd (deriveJointState mu example_world) = example_world"
proof
  fix mu
  have m: "matrix_basis (obj (log LimitsDefaulted WARNING example_world))
          = matrix_basis (obj example_world)"
    by (simp add: log_def)
  show "matrix_basis (obj (log LimitsDefaulted WARNING example_world))
          = matrix_basis (obj example_world)
     \<and> fst (deriveJointState mu (log LimitsDefaulted WARNING example_world))
          = fst (deriveJointState mu example_world)
     \<and> snd (deriveJointState mu example_world) = example_world"
    using m deriveJointState_pure [of mu example_world "log LimitsDefaulted WARNING example_world"]
    by (simp only: simp_thms)
qed

text \<open>
  C5. The claim: the classifier counts a translation axis as locked only when both enable flags
  are set and the bounds are equal. \<open>getJointType\<close> tests \<open>use_min\<close> alone: on
  \<open>min_only_link\<close> it counts x as locked and answers planar, while \<open>getJointConstraints\<close>,
  which tests both flags, finds no locked axis and raises.
\<close>

theorem min_flag_alone_counts_as_locked:
  "getJointType min_only_link = (''planar'', None)
   \<and> getJointConstraints min_only_link = Inl (under_defined min_only_link)"
  by (simp add: min_only_link_def run_defs) blast

theorem min_flag_alone_counts_as_locked_witness:
  "fst (getJointType min_only_link) = ''planar''
   \<and> getJointConstraints min_only_link = Inl (under_defined min_only_link)"
  using min_flag_alone_counts_as_locked by simp

text \<open>
  C4, as stated, fails: with three locked translation axes and one limited rotation axis
  \<open>getJointType\<close> answers floating and \<open>getJointConstraints\<close> returns without an error.
\<close>

theorem one_rotation_guessed_floating:
  "getJointType one_rotation_link = (''floating'', Some (False, False, False))
   \<and> getJointConstraints one_rotation_link = Inr (None, None)"
  by (simp add: one_rotation_link_def run_defs)

text \<open>
  C4, amended. Take a constraint set in which no translation axis has its min flag set
  without its max flag, and whose counts of locked translation axes (both flags set, equal
  bounds) and of limited rotation axes match none of the patterns (3 with 3 or 2; 2; 1).
  Then \<open>getJointType\<close> answers floating, its default, and \<open>getJointConstraints\<close> returns no
  axis and no limits without raising: no error reaches the caller.
\<close>

theorem unmatched_pattern_is_floating:
  assumes "flags_paired joint"
    and "\<not> (locked_axes joint = Some 3
            \<and> (limited_rotations joint = Some 3 \<or> limited_rotations joint = Some 2))"
    and "locked_axes joint \<noteq> Some 2" and "locked_axes joint \<noteq> Some 1"
  shows "fst (getJointType joint) = ''floating''
         \<and> getJointConstraints joint = Inr (None, None)"
proof -
  obtain cloc rot where l: "getJointType_loop (constraints joint) (None, None) = (cloc, rot)"
    by (cases "getJointType_loop (constraints joint) (None, None)")
  have cl: "cloc = map_option
        (\<lambda>c. (use_min_x c \<and> min_x c = max_x c,
              use_min_y c \<and> min_y c = max_y c,
              use_min_z c \<and> min_z c = max_z c))
        (getJointConstraint joint ''LIMIT_LOCATION'')"
    and ro: "rot = map_option
        (\<lambda>c. (c, (use_limit_x c \<and> (min_x c \<noteq> 0 \<or> max_x c \<noteq> 0),
                  use_limit_y c \<and> (min_y c \<noteq> 0 \<or> max_y c \<noteq> 0),
                  use_limit_z c \<and> (min_z c \<noteq> 0 \<or> max_z c \<noteq> 0))))
        (getJointConstraint joint ''LIMIT_ROTATION'')"
    using l getJointType_loop_last [of "constraints joint"]
    by (simp_all add: getJointConstraint_def)
  have nl: "map_option py_sum cloc = locked_axes joint"
  proof (cases "getJointConstraint joint ''LIMIT_LOCATION''")
    case None
    then show ?thesis by (simp add: cl locked_axes_def)
  next
    case (Some c)
    with assms(1) have
      "(use_min_x c \<and> min_x c = max_x c) = (use_min_x c \<and> use_max_x c \<and> min_x c = max_x c)"
      "(use_min_y c \<and> min_y c = max_y c) = (use_min_y c \<and> use_max_y c \<and> min_y c = max_y c)"
      "(use_min_z c \<and> min_z c = max_z c) = (use_min_z c \<and> use_max_z c \<and> min_z c = max_z c)"
      unfolding flags_paired_def by auto
    then show ?thesis unfolding cl locked_axes_def Some by (simp del: py_sum.simps)
  qed
  have nr: "map_option
              (\<lambda>(limrot, crot).
                 py_sum (use_limit_x limrot, use_limit_y limrot, use_limit_z limrot)) rot
            = limited_rotations joint"
    unfolding ro limited_rotations_def
    by (cases "getJointConstraint joint ''LIMIT_ROTATION''") simp_all
  have e: "fst (getJointType joint) =
     (if cloc \<noteq> None then
        (if locked_axes joint = Some 3 then
           (if limited_rotations joint = Some 3 then
              (case rot of
                 Some (limrot, crot) \<Rightarrow> if py_sum crot > 0 then ''revolute'' else ''fixed''
               | None \<Rightarrow> ''floating'')
            else if limited_rotations joint = Some 2 then ''continuous''
            else ''floating'')
         else if locked_axes joint = Some 2 then ''prismatic''
         else if locked_axes joint = Some 1 then ''planar''
         else ''floating'')
      else ''floating'')"
    unfolding getJointType_def l nl [symmetric] nr [symmetric]
    by (simp only: Let_def prod.case fst_conv snd_conv)
  have t: "fst (getJointType joint) = ''floating''"
  proof (cases "locked_axes joint = Some 3")
    case True
    with assms(2) have "limited_rotations joint \<noteq> Some 3" "limited_rotations joint \<noteq> Some 2"
      by simp_all
    with True show ?thesis unfolding e by simp
  next
    case False
    with assms(3,4) show ?thesis unfolding e by simp
  qed
  then have "getJointConstraints joint = Inr (None, None)"
    unfolding getJointConstraints_def deriveJointType_def
    by (cases "getJointType joint") simp
  with t show ?thesis by simp
qed

theorem unmatched_pattern_is_floating_witness:
  "flags_paired one_rotation_link
   \<and> locked_axes one_rotation_link = Some 3 \<and> limited_rotations one_rotation_link = Some 1
   \<and> fst (getJointType one_rotation_link) = ''floating''
   \<and> getJointConstraints one_rotation_link = Inr (None, None)"
proof -
  have f: "flags_paired one_rotation_link"
    by (simp add: flags_paired_def one_rotation_link_def run_defs)
  have c: "locked_axes one_rotation_link = Some 3" "limited_rotations one_rotation_link = Some 1"
    by (simp_all add: locked_axes_def limited_rotations_def one_rotation_link_def run_defs)
  have 1: "\<not> (locked_axes one_rotation_link = Some 3
       \<and> (limited_rotations one_rotation_link = Some 3
          \<or> limited_rotations one_rotation_link = Some 2))"
    and 2: "locked_axes one_rotation_link \<noteq> Some 2"
    and 3: "locked_axes one_rotation_link \<noteq> Some 1"
    by (simp_all add: c)
  show ?thesis
    using f c unmatched_pattern_is_floating [OF f 1 2 3] by (simp only: simp_thms)
qed

text \<open>
  C3. The claim: an approximation that lacks \<open>coefficients\<close> is reported and nothing is written.
  On a revolute joint with \<open>{'function': 'poly'}\<close> the code writes
  \<open>joint/maxeffort_approximation\<close>, then leaves with a \<open>KeyError\<close>; no error is logged.
\<close>

theorem malformed_approximation_partial_write:
  "fst (setJointConstraints ''revolute'' 0 0 0 0 (Some [(''function'', Str ''poly'')]) None
          example_world) = Some (KeyError ''coefficients'')
   \<and> props (obj (snd (setJointConstraints ''revolute'' 0 0 0 0
          (Some [(''function'', Str ''poly'')]) None example_world)))
        ''joint/maxeffort_approximation'' = Some (Str ''poly'')
   \<and> logs (snd (setJointConstraints ''revolute'' 0 0 0 0
          (Some [(''function'', Str ''poly'')]) None example_world))
        = [(DEBUG, SettingJointConstraints ''arm'')]"
  by (simp add: sjc_defs run_defs)

theorem malformed_approximation_partial_write_witness:
  "fst (setJointConstraints ''revolute'' 0 0 0 0 (Some [(''function'', Str ''poly'')]) None
          example_world) \<noteq> None
   \<and> props (obj (snd (setJointConstraints ''revolute'' 0 0 0 0
          (Some [(''function'', Str ''poly'')]) None example_world)))
        ''joint/maxeffort_approximation'' \<noteq> None"
  using malformed_approximation_partial_write by simp

text \<open>
  C2, as stated, fails: with an axis of length zero \<open>createJoint\<close> returns normally and the
  link has its constraints and its \<open>joint/type\<close> written.
\<close>

theorem createJoint_zero_axis_still_applies:
  "fst (createJoint zero_axis_joint True example_world) = None
   \<and> constraints (obj example_world) = []
   \<and> length (constraints (obj (snd (createJoint zero_axis_joint True example_world)))) = 2
   \<and> props (obj example_world) ''joint/type'' = None
   \<and> props (obj (snd (createJoint zero_axis_joint True example_world))) ''joint/type''
       = Some (Str ''fixed'')"
proof -
  have l: "phobostype (obj example_world) = ''link''"
    by (simp add: example_world_def example_link_def)
  have t: "jtype zero_axis_joint = ''fixed''" by (simp add: zero_axis_joint_def)
  have c: "length (constraints (obj (snd (createJoint zero_axis_joint True example_world)))) = 2"
    unfolding createJoint_constraints constraints_setJointConstraints [OF l] t
    by (simp add: constraints_set_fixed)
  have lb: "phobostype (obj (before_constraints zero_axis_joint example_world)) = ''link''"
    by (simp add: before_constraints_frame l)
  have p: "props (obj (snd (createJoint zero_axis_joint True example_world))) (''joint/'' @ ''type'')
       = Some (Str ''fixed'')"
    unfolding createJoint_result(3)
    by (subst add_generic_props) (simp_all add: sjc_plain_props lb t)
  show ?thesis
    using c p by (simp add: createJoint_result(1) example_world_def example_link_def)
qed

text \<open>
  C2, amended. For a joint definition whose axis has length zero, \<open>createJoint\<close> on an
  identified object logs an error for the axis and leaves the edit bone as it is; it raises
  nothing and goes on. On a link, \<open>joint/type\<close> is written and the constraints are the
  constraint set of the type with the bounds of the definition; on an object that is no link
  the constraints stay as they were.
\<close>

theorem createJoint_zero_axis:
  assumes "axis joint = Some a" and "vec_length a = 0"
  shows "fst (createJoint joint True w) = None
   \<and> (ERROR, AxisZeroLength (jname joint)) \<in> set (logs (snd (createJoint joint True w)))
   \<and> bone_head (obj (snd (createJoint joint True w))) = bone_head (obj w)
   \<and> bone_tail (obj (snd (createJoint joint True w))) = bone_tail (obj w)
   \<and> (if phobostype (obj w) = ''link''
      then props (obj (snd (createJoint joint True w))) ''joint/type'' = Some (Str (jtype joint))
         \<and> constraints (obj (snd (createJoint joint True w))) =
             spec_constraint_set (jtype joint) (fst (spec_bounds joint)) (snd (spec_bounds joint))
      else constraints (obj (snd (createJoint joint True w))) = constraints (obj w))"
proof -
  have 1: "(ERROR, AxisZeroLength (jname joint)) \<in> set (logs (snd (createJoint joint True w)))"
    by (rule createJoint_logs_mono) (rule before_constraints_zero_axis(1) [OF assms])
  have 2: "bone_head (obj (snd (createJoint joint True w))) = bone_head (obj w)"
    unfolding createJoint_result(3) add_generic_frame sjc_plain_bone
    by (rule before_constraints_zero_axis(2) [OF assms])
  have 3: "bone_tail (obj (snd (createJoint joint True w))) = bone_tail (obj w)"
    unfolding createJoint_result(3) add_generic_frame sjc_plain_bone
    by (rule before_constraints_zero_axis(3) [OF assms])
  have 4: "if phobostype (obj w) = ''link''
      then props (obj (snd (createJoint joint True w))) ''joint/type'' = Some (Str (jtype joint))
         \<and> constraints (obj (snd (createJoint joint True w))) =
             spec_constraint_set (jtype joint) (fst (spec_bounds joint)) (snd (spec_bounds joint))
      else constraints (obj (snd (createJoint joint True w))) = constraints (obj w)"
  proof (cases "phobostype (obj w) = ''link''")
    case True
    then show ?thesis
      using createJoint_type_written [OF True, of joint] createJoint_constraints_spec [of joint w]
      by simp
  next
    case False
    then show ?thesis using createJoint_constraints_spec [of joint w] by simp
  qed
  show ?thesis
    using 1 2 3 4 createJoint_result(1) [of joint w] by (simp only: simp_thms)
qed

theorem createJoint_zero_axis_witness:
  "axis zero_axis_joint = Some (0, 0, 0) \<and> vec_length (0, 0, 0) = 0
   \<and> fst (createJoint zero_axis_joint True example_world) = None
   \<and> (ERROR, AxisZeroLength ''arm'')
        \<in> set (logs (snd (createJoint zero_axis_joint True example_world)))
   \<and> bone_tail (obj (snd (createJoint zero_axis_joint True example_world))) = (0, 1, 0)
   \<and> props (obj (snd (createJoint zero_axis_joint True example_world))) ''joint/type''
       = Some (Str ''fixed'')
   \<and> constraints (obj (snd (createJoint zero_axis_joint True example_world)))
       = [location_record True True True 0 0, rotation_record True 0 0]"
proof -
  have a: "axis zero_axis_joint = Some (0, 0, 0)" by (simp add: zero_axis_joint_def)
  have z: "vec_length (0, 0, 0) = 0" by simp
  have n: "jname zero_axis_joint = ''arm''" "jtype zero_axis_joint = ''fixed''"
    by (simp_all add: zero_axis_joint_def)
  have b: "bone_tail (obj example_world) = (0, 1, 0)"
    and l: "phobostype (obj example_world) = ''link''"
    by (simp_all add: example_world_def example_link_def)
  have s: "spec_constraint_set ''fixed'' lo up
      = [location_record True True True 0 0, rotation_record True 0 0]" for lo up
    by (simp add: spec_constraint_set_def)
  show ?thesis
    using a z createJoint_zero_axis [OF a z, of example_world]
    by (simp only: n b l s simp_thms if_True)
qed

text \<open>
  C7. For a joint definition without limits, or whose limits lack \<open>lower\<close> or \<open>upper\<close>,
  \<open>createJoint\<close> on an identified link logs a warning and goes on with the bounds
  \<open>-1e-5\<close> and \<open>1e-5\<close>: the constraints are those \<open>setJointConstraints\<close> builds with these
  bounds, and for a revolute joint on a link they are the location constraint with the three
  axes locked at 0 and the rotation constraint with x and z at 0 and y in
  \<open>(-1e-5, 1e-5)\<close>.
\<close>

theorem createJoint_default_limits:
  assumes "case limits joint of None \<Rightarrow> True
           | Some lims \<Rightarrow> lower lims = None \<or> upper lims = None"
  shows "fst (createJoint joint True w) = None
   \<and> ((WARNING, LimitsDefaulted) \<in> set (logs (snd (createJoint joint True w)))
      \<or> (WARNING, LimitsDefaultedBoth) \<in> set (logs (snd (createJoint joint True w))))
   \<and> constraints (obj (snd (createJoint joint True w))) =
       constraints (obj (snd (setJointConstraints (jtype joint) (- (1 / 100000)) (1 / 100000)
         0 0 None None w)))
   \<and> (phobostype (obj w) = ''link'' \<and> jtype joint = ''revolute'' \<longrightarrow>
       constraints (obj (snd (createJoint joint True w))) =
         [\<lparr>ctype = ''LIMIT_LOCATION'',
           use_min_x = True, use_min_y = True, use_min_z = True,
           use_max_x = True, use_max_y = True, use_max_z = True,
           use_limit_x = False, use_limit_y = False, use_limit_z = False,
           min_x = 0, max_x = 0, min_y = 0, max_y = 0, min_z = 0, max_z = 0,
           owner_space = ''LOCAL''\<rparr>,
          \<lparr>ctype = ''LIMIT_ROTATION'',
           use_min_x = False, use_min_y = False, use_min_z = False,
           use_max_x = False, use_max_y = False, use_max_z = False,
           use_limit_x = True, use_limit_y = True, use_limit_z = True,
           min_x = 0, max_x = 0, min_y = - (1 / 100000), max_y = 1 / 100000,
           min_z = 0, max_z = 0,
           owner_space = ''LOCAL''\<rparr>])"
proof -
  let ?w0 = "if jname joint \<noteq> name (obj w)
        then setprop ''joint/name'' (Str (jname joint)) w else w"
  have b: "snd (limits_block joint w) = (- (1 / 100000), 1 / 100000)"
    by (rule limits_block_default(1) [OF assms])
  have "(WARNING, LimitsDefaulted) \<in> set (logs (before_constraints joint w))
         \<or> (WARNING, LimitsDefaultedBoth) \<in> set (logs (before_constraints joint w))"
    unfolding before_constraints_def by (rule limits_block_default(2) [OF assms])
  then have 1: "(WARNING, LimitsDefaulted) \<in> set (logs (snd (createJoint joint True w)))
      \<or> (WARNING, LimitsDefaultedBoth) \<in> set (logs (snd (createJoint joint True w)))"
    using createJoint_logs_mono by blast
  have 2: "constraints (obj (snd (createJoint joint True w))) =
       constraints (obj (snd (setJointConstraints (jtype joint) (- (1 / 100000)) (1 / 100000)
         0 0 None None w)))"
    using createJoint_constraints [of joint w] by (simp add: b)
  have 3: "constraints (obj (snd (setJointConstraints ''revolute'' (- (1 / 100000)) (1 / 100000)
         0 0 None None w))) =
         [\<lparr>ctype = ''LIMIT_LOCATION'',
           use_min_x = True, use_min_y = True, use_min_z = True,
           use_max_x = True, use_max_y = True, use_max_z = True,
           use_limit_x = False, use_limit_y = False, use_limit_z = False,
           min_x = 0, max_x = 0, min_y = 0, max_y = 0, min_z = 0, max_z = 0,
           owner_space = ''LOCAL''\<rparr>,
          \<lparr>ctype = ''LIMIT_ROTATION'',
           use_min_x = False, use_min_y = False, use_min_z = False,
           use_max_x = False, use_max_y = False, use_max_z = False,
           use_limit_x = True, use_limit_y = True, use_limit_z = True,
           min_x = 0, max_x = 0, min_y = - (1 / 100000), max_y = 1 / 100000,
           min_z = 0, max_z = 0,
           owner_space = ''LOCAL''\<rparr>]" if "phobostype (obj w) = ''link''"
    unfolding constraints_setJointConstraints [OF that]
    by (simp add: constraints_set_revolute new_constraint_def fix_location_def)
  show ?thesis
    using 1 2 3 createJoint_result(1) [of joint w] by simp
qed

theorem createJoint_default_limits_witness:
  "limits no_limits_joint = None
   \<and> ((WARNING, LimitsDefaulted)
        \<in> set (logs (snd (createJoint no_limits_joint True example_world)))
      \<or> (WARNING, LimitsDefaultedBoth)
        \<in> set (logs (snd (createJoint no_limits_joint True example_world))))
   \<and> map (\<lambda>c. (ctype c, min_y c, max_y c))
        (constraints (obj (snd (createJoint no_limits_joint True example_world))))
       = [(''LIMIT_LOCATION'', 0, 0), (''LIMIT_ROTATION'', - (1 / 100000), 1 / 100000)]"
proof -
  have h: "case limits no_limits_joint of None \<Rightarrow> True
           | Some lims \<Rightarrow> lower lims = None \<or> upper lims = None"
    by (simp add: no_limits_joint_def)
  have l: "phobostype (obj example_world) = ''link''"
    by (simp add: example_world_def example_link_def)
  have t: "jtype no_limits_joint = ''revolute''" "limits no_limits_joint = None"
    by (simp_all add: no_limits_joint_def)
  note T = createJoint_default_limits [OF h, of example_world]
  have c: "map (\<lambda>c. (ctype c, min_y c, max_y c))
        (constraints (obj (snd (createJoint no_limits_joint True example_world))))
       = [(''LIMIT_LOCATION'', 0, 0), (''LIMIT_ROTATION'', - (1 / 100000), 1 / 100000)]"
    using T [THEN conjunct2, THEN conjunct2, THEN conjunct2] l t by simp
  show ?thesis
    using T [THEN conjunct2, THEN conjunct1] c t(2) by (simp only: simp_thms)
qed

text \<open>
  C8. For a joint definition with limits, \<open>createJoint\<close> on an identified object stores a
  present \<open>effort\<close> under \<open>joint/maxEffort\<close> and a present \<open>velocity\<close> under
  \<open>joint/maxSpeed\<close>, logs an error for each that is missing, and goes on: on a link the
  constraints are the constraint set of the type with the given \<open>lower\<close> and \<open>upper\<close>, or
  with \<open>-1e-5\<close> and \<open>1e-5\<close> when one of them is missing (on an object that is no link
  \<open>setJointConstraints\<close> refuses and the constraints stay).
\<close>

theorem createJoint_limits_effort_velocity:
  assumes "limits joint = Some lims"
  shows "fst (createJoint joint True w) = None
   \<and> (case effort lims of
         Some v \<Rightarrow> props (obj (snd (createJoint joint True w))) ''joint/maxEffort'' = Some (Num v)
       | None \<Rightarrow> (ERROR, LimitsIncomplete (jname joint) ''effort'')
                   \<in> set (logs (snd (createJoint joint True w))))
   \<and> (case velocity lims of
         Some v \<Rightarrow> props (obj (snd (createJoint joint True w))) ''joint/maxSpeed'' = Some (Num v)
       | None \<Rightarrow> (ERROR, LimitsIncomplete (jname joint) ''velocity'')
                   \<in> set (logs (snd (createJoint joint True w))))
   \<and> (case (lower lims, upper lims) of
         (Some lo, Some up) \<Rightarrow>
           constraints (obj (snd (createJoint joint True w))) =
             (if phobostype (obj w) = ''link'' then spec_constraint_set (jtype joint) lo up
              else constraints (obj w))
       | _ \<Rightarrow>
           constraints (obj (snd (createJoint joint True w))) =
             (if phobostype (obj w) = ''link''
              then spec_constraint_set (jtype joint) (- (1 / 100000)) (1 / 100000)
              else constraints (obj w)))"
proof -
  let ?w0 = "if jname joint \<noteq> name (obj w)
        then setprop ''joint/name'' (Str (jname joint)) w else w"
  let ?R = "snd (createJoint joint True w)"
  have pe: "props (obj ?R) ''joint/maxEffort'' =
            props (obj (before_constraints joint w)) ''joint/maxEffort''"
    using createJoint_props_kept [of "''maxEffort''" joint w] by simp
  have ps: "props (obj ?R) ''joint/maxSpeed'' =
            props (obj (before_constraints joint w)) ''joint/maxSpeed''"
    using createJoint_props_kept [of "''maxSpeed''" joint w] by simp
  have 1: "case effort lims of
         Some v \<Rightarrow> props (obj ?R) ''joint/maxEffort'' = Some (Num v)
       | None \<Rightarrow> (ERROR, LimitsIncomplete (jname joint) ''effort'') \<in> set (logs ?R)"
  proof (cases "effort lims")
    case None
    have "(ERROR, LimitsIncomplete (jname joint) ''effort'')
            \<in> set (logs (before_constraints joint w))"
      using limits_block_effort [OF assms, of "axis_block joint ?w0"] None
      by (simp add: before_constraints_def)
    then show ?thesis using None createJoint_logs_mono by simp
  next
    case (Some v)
    have "props (obj (before_constraints joint w)) ''joint/maxEffort'' = Some (Num v)"
      using limits_block_effort [OF assms, of "axis_block joint ?w0"] Some
      by (simp add: before_constraints_def)
    then show ?thesis using Some pe by simp
  qed
  have 2: "case velocity lims of
         Some v \<Rightarrow> props (obj ?R) ''joint/maxSpeed'' = Some (Num v)
       | None \<Rightarrow> (ERROR, LimitsIncomplete (jname joint) ''velocity'') \<in> set (logs ?R)"
  proof (cases "velocity lims")
    case None
    have "(ERROR, LimitsIncomplete (jname joint) ''velocity'')
            \<in> set (logs (before_constraints joint w))"
      using limits_block_velocity [OF assms, of "axis_block joint ?w0"] None
      by (simp add: before_constraints_def)
    then show ?thesis using None createJoint_logs_mono by simp
  next
    case (Some v)
    have "props (obj (before_constraints joint w)) ''joint/maxSpeed'' = Some (Num v)"
      using limits_block_velocity [OF assms, of "axis_block joint ?w0"] Some
      by (simp add: before_constraints_def)
    then show ?thesis using Some ps by simp
  qed
  have 3: "case (lower lims, upper lims) of
         (Some lo, Some up) \<Rightarrow>
           constraints (obj ?R) =
             (if phobostype (obj w) = ''link'' then spec_constraint_set (jtype joint) lo up
              else constraints (obj w))
       | _ \<Rightarrow>
           constraints (obj ?R) =
             (if phobostype (obj w) = ''link''
              then spec_constraint_set (jtype joint) (- (1 / 100000)) (1 / 100000)
              else constraints (obj w))"
  proof (cases "lower lims = None \<or> upper lims = None")
    case True
    then have "spec_bounds joint = (- (1 / 100000), 1 / 100000)"
      using assms by (auto simp: spec_bounds_def split: option.splits)
    then have "constraints (obj ?R) =
             (if phobostype (obj w) = ''link''
              then spec_constraint_set (jtype joint) (- (1 / 100000)) (1 / 100000)
              else constraints (obj w))"
      using createJoint_constraints_spec [of joint w] by simp
    with True show ?thesis by (auto split: option.splits)
  next
    case False
    then obtain lo up where b: "lower lims = Some lo" "upper lims = Some up" by auto
    then have "spec_bounds joint = (lo, up)"
      using assms by (simp add: spec_bounds_def)
    then have "constraints (obj ?R) =
             (if phobostype (obj w) = ''link'' then spec_constraint_set (jtype joint) lo up
              else constraints (obj w))"
      using createJoint_constraints_spec [of joint w] by simp
    with b show ?thesis by simp
  qed
  show ?thesis
    using 1 2 3 createJoint_result(1) [of joint w] by (simp only: simp_thms)
qed

theorem createJoint_limits_effort_velocity_witness:
  "limits effort_only_joint
     = Some \<lparr>lower = Some (- 1), upper = Some 1, effort = Some 50, velocity = None\<rparr>
   \<and> props (obj (snd (createJoint effort_only_joint True example_world))) ''joint/maxEffort''
       = Some (Num 50)
   \<and> (ERROR, LimitsIncomplete ''elbow'' ''velocity'')
        \<in> set (logs (snd (createJoint effort_only_joint True example_world)))
   \<and> constraints (obj (snd (createJoint effort_only_joint True example_world))) =
       [location_record True True True 0 0, rotation_record True (- 1) 1]"
proof -
  have h: "limits effort_only_joint
     = Some \<lparr>lower = Some (- 1), upper = Some 1, effort = Some 50, velocity = None\<rparr>"
    by (simp add: effort_only_joint_def)
  have n: "jname effort_only_joint = ''elbow''" "jtype effort_only_joint = ''revolute''"
    by (simp_all add: effort_only_joint_def)
  have l: "phobostype (obj example_world) = ''link''"
    by (simp add: example_world_def example_link_def)
  have s: "spec_constraint_set ''revolute'' lo up
      = [location_record True True True 0 0, rotation_record True lo up]" for lo up
    by (simp add: spec_constraint_set_def)
  show ?thesis
    using h createJoint_limits_effort_velocity [OF h, of example_world]
    by (simp add: n l s)
qed

end
